theory Spec2Isabelle
  imports Main "HOL-Library.Signed_Division"
begin

section \<open>Go strings and numbers\<close>

text \<open>
  Go strings are byte sequences; they are modelled as \<^typ>\<open>string\<close> (a list of bytes).
  The functions below are the ones of packages \<open>strings\<close>, \<open>strconv\<close> and
  \<open>path/filepath\<close> that the server calls, with the meaning the Go documentation gives
  them on ASCII input (SSDP, SOAP and URL text). Go's \<open>int\<close> is 64 bits wide; it is
  modelled as \<^typ>\<open>int\<close> with the wrap-around written out where the code adds.
\<close>

definition HasPrefix :: "string \<Rightarrow> string \<Rightarrow> bool" where
  "HasPrefix s p = (take (length p) s = p)"

definition HasSuffix :: "string \<Rightarrow> string \<Rightarrow> bool" where
  "HasSuffix s p = (length p \<le> length s \<and> drop (length s - length p) s = p)"


text \<open>\<open>strings.Index\<close>: the position of the first occurrence, or \<open>-1\<close>.\<close>

fun IndexFrom :: "nat \<Rightarrow> string \<Rightarrow> string \<Rightarrow> int" where
  "IndexFrom i [] sub = (if sub = [] then int i else - 1)"
| "IndexFrom i (c # cs) sub =
     (if HasPrefix (c # cs) sub then int i else IndexFrom (Suc i) cs sub)"

definition Index :: "string \<Rightarrow> string \<Rightarrow> int" where
  "Index s sub = IndexFrom 0 s sub"

definition Contains :: "string \<Rightarrow> string \<Rightarrow> bool" where
  "Contains s sub = (Index s sub \<ge> 0)"

text \<open>\<open>strings.ToLower\<close> and \<open>strings.EqualFold\<close> on ASCII letters.\<close>

definition lower_char :: "char \<Rightarrow> char" where
  "lower_char c =
     (let n = (of_char c :: nat) in if 65 \<le> n \<and> n \<le> 90 then char_of (n + 32) else c)"

definition ToLower :: "string \<Rightarrow> string" where
  "ToLower s = map lower_char s"

definition EqualFold :: "string \<Rightarrow> string \<Rightarrow> bool" where
  "EqualFold s t = (ToLower s = ToLower t)"

text \<open>
  \<open>strings.Split(s, sep)\<close> for a non-empty separator: the pieces between the
  non-overlapping occurrences of \<open>sep\<close>, found from the left. The result is never empty.
\<close>

function SplitAcc :: "string \<Rightarrow> string \<Rightarrow> string \<Rightarrow> string list" where
  "SplitAcc sep cur [] = [rev cur]"
| "SplitAcc sep cur (c # cs) =
     (if sep \<noteq> [] \<and> HasPrefix (c # cs) sep
      then rev cur # SplitAcc sep [] (drop (length sep) (c # cs))
      else SplitAcc sep (c # cur) cs)"
  by pat_completeness auto
termination
  by (relation "measure (\<lambda>(sep, cur, s). length s)") (auto simp: neq_Nil_conv)

definition Split :: "string \<Rightarrow> string \<Rightarrow> string list" where
  "Split s sep = SplitAcc sep [] s"

text \<open>\<open>strings.Trim(s, cutset)\<close>: leading and trailing bytes of the cutset removed.\<close>

definition Trim :: "string \<Rightarrow> string \<Rightarrow> string" where
  "Trim s cutset =
     rev (dropWhile (\<lambda>c. c \<in> set cutset) (rev (dropWhile (\<lambda>c. c \<in> set cutset) s)))"

text \<open>\<open>strings.Join\<close>.\<close>

fun JoinStr :: "string list \<Rightarrow> string \<Rightarrow> string" where
  "JoinStr [] sep = []"
| "JoinStr [x] sep = x"
| "JoinStr (x # y # ys) sep = x @ sep @ JoinStr (y # ys) sep"

subsection \<open>Package \<open>path/filepath\<close> (Unix)\<close>

text \<open>
  \<open>filepath.Clean\<close> follows the rules of its documentation: runs of separators
  collapse, every \<open>.\<close> element goes, every inner \<open>..\<close> goes with the element before
  it, a \<open>..\<close> that starts a rooted path goes, and the empty result is \<open>.\<close>. The stack
  \<open>out\<close> holds the elements written so far, last one first; backtracking is possible
  when its top is a real element.
\<close>

fun clean_elems :: "bool \<Rightarrow> string list \<Rightarrow> string list \<Rightarrow> string list" where
  "clean_elems rooted out [] = rev out"
| "clean_elems rooted out (e # es) =
     (if e = [] \<or> e = ''.'' then clean_elems rooted out es
      else if e = ''..'' then
        (if out \<noteq> [] \<and> hd out \<noteq> ''..'' then clean_elems rooted (tl out) es
         else if \<not> rooted then clean_elems rooted (''..'' # out) es
         else clean_elems rooted out es)
      else clean_elems rooted (e # out) es)"

definition Clean :: "string \<Rightarrow> string" where
  "Clean p =
     (if p = [] then ''.''
      else let rooted = HasPrefix p ''/'';
               out = clean_elems rooted [] (Split p ''/'')
           in if rooted then ''/'' @ JoinStr out ''/''
              else if out = [] then ''.'' else JoinStr out ''/'')"

definition IsAbs :: "string \<Rightarrow> bool" where
  "IsAbs p = HasPrefix p ''/''"

text \<open>\<open>filepath.Join\<close>: empty leading elements are skipped, the rest is joined and cleaned.\<close>

definition Join :: "string list \<Rightarrow> string" where
  "Join elem =
     (case dropWhile (\<lambda>e. e = []) elem of
        [] \<Rightarrow> []
      | es \<Rightarrow> Clean (JoinStr es ''/''))"

section \<open>Segment service (\<open>hls.go\<close>, \<open>CopySegment\<close>)\<close>

datatype os_error = ErrPermission | ErrNotExist

text \<open>
  The files below the scratch base directory, by path. \<open>CopySegment\<close> validates the
  segment name, resolves the path, opens it and copies the bytes to the writer; the
  model returns the bytes written.
\<close>

type_synonym files = "string \<rightharpoonup> string"

definition CopySegment_path :: "string \<Rightarrow> string \<Rightarrow> string \<Rightarrow> os_error + string" where
  "CopySegment_path baseDir sessionID segmentName =
     (let cleanName = Clean segmentName
      in if cleanName \<noteq> segmentName \<or> IsAbs segmentName \<or> cleanName = ''..''
         then Inl ErrPermission
         else Inr (Join [baseDir, sessionID, cleanName]))"

definition CopySegment :: "files \<Rightarrow> string \<Rightarrow> string \<Rightarrow> string \<Rightarrow> os_error + string" where
  "CopySegment fs baseDir sessionID segmentName =
     (case CopySegment_path baseDir sessionID segmentName of
        Inl e \<Rightarrow> Inl e
      | Inr path \<Rightarrow> (case fs path of None \<Rightarrow> Inl ErrNotExist | Some bytes \<Rightarrow> Inr bytes))"

text \<open>
  A path lies strictly under a directory when it is the directory, a separator and a
  non-empty rest (the root directory already ends in its separator).
\<close>

definition strictly_under :: "string \<Rightarrow> string \<Rightarrow> bool" where
  "strictly_under p d =
     (let d' = (if d = ''/'' then d else d @ ''/'')
      in HasPrefix p d' \<and> length d' < length p)"

section \<open>Stream dispatcher (\<open>stream.go\<close>): routing of \<open>ServeHTTP\<close>\<close>

text \<open>
  The first part of \<open>ServeHTTP\<close>: the request path is trimmed of slashes and split;
  the second element is the movie id, a third element \<open>hls\<close> selects the HLS routes.
\<close>

datatype path_route =
    InvalidStreamPath
  | InvalidHLSPath
  | InvalidHLSFile
  | HLSPlaylist string
  | HLSSegment string string
  | PlainStream string

definition route_path :: "string \<Rightarrow> path_route" where
  "route_path urlPath =
     (let path = Trim urlPath ''/'';
          parts = Split path ''/''
      in if length parts < 2 then InvalidStreamPath
         else let movieID = parts ! 1
              in if length parts \<ge> 3 \<and> parts ! 2 = ''hls'' then
                   (if length parts < 4 then InvalidHLSPath
                    else let filename = parts ! 3
                         in if HasSuffix filename ''.m3u8'' then HLSPlaylist movieID
                            else if HasSuffix filename ''.ts'' then HLSSegment movieID filename
                            else InvalidHLSFile)
                 else PlainStream movieID)"


subsection \<open>Package \<open>strconv\<close> and machine integers\<close>

definition maxInt :: int where
  "maxInt = 2 ^ 63 - 1"

definition minInt :: int where
  "minInt = - (2 ^ 63)"

text \<open>Addition of two Go \<open>int\<close> values: the sum wraps around at 64 bits.\<close>

definition wrap64 :: "int \<Rightarrow> int" where
  "wrap64 x = (x + 2 ^ 63) mod 2 ^ 64 - 2 ^ 63"

definition is_digit :: "char \<Rightarrow> bool" where
  "is_digit c = (48 \<le> (of_char c :: nat) \<and> (of_char c :: nat) \<le> 57)"

definition digits_value :: "string \<Rightarrow> int" where
  "digits_value ds = foldl (\<lambda>n c. 10 * n + (int (of_char c) - 48)) 0 ds"

text \<open>
  \<open>strconv.Atoi\<close> with its error dropped, as every caller here does
  (\<open>n, _ = strconv.Atoi(s)\<close>): a syntax error leaves 0, a value out of range leaves the
  nearest 64-bit bound.
\<close>

definition Atoi :: "string \<Rightarrow> int" where
  "Atoi s =
     (let neg = HasPrefix s ''-'';
          ds = (if HasPrefix s ''-'' \<or> HasPrefix s ''+'' then tl s else s)
      in if ds = [] \<or> \<not> list_all is_digit ds then 0
         else let un = digits_value ds
              in if \<not> neg \<and> un > maxInt then maxInt
                 else if neg \<and> un > 2 ^ 63 then minInt
                 else if neg then - un else un)"

function nat_digits :: "nat \<Rightarrow> string" where
  "nat_digits n =
     (if n < 10 then [char_of (48 + n)]
      else nat_digits (n div 10) @ [char_of (48 + n mod 10)])"
  by pat_completeness auto
termination
  by (relation "measure id") auto

declare nat_digits.simps [simp del]

text \<open>\<open>strconv.Itoa\<close>, which is also what the verb \<open>%d\<close> of \<open>fmt.Sprintf\<close> prints.\<close>

definition Itoa :: "int \<Rightarrow> string" where
  "Itoa i = (if i < 0 then ''-'' @ nat_digits (nat (- i)) else nat_digits (nat i))"

text \<open>The verb \<open>%02d\<close>: at least two characters, filled with a zero on the left.\<close>

definition pad2 :: "int \<Rightarrow> string" where
  "pad2 i = (let s = Itoa i in if length s < 2 then ''0'' @ s else s)"

text \<open>
  A Go run-time panic. A slice expression \<open>s[lo:hi]\<close> panics unless
  \<open>0 \<le> lo \<le> hi \<le> len s\<close> (the slices here have their capacity equal to their length).
\<close>

datatype panic = SliceBoundsOutOfRange

definition slice :: "'a list \<Rightarrow> int \<Rightarrow> int \<Rightarrow> panic + 'a list" where
  "slice xs lo hi =
     (if 0 \<le> lo \<and> lo \<le> hi \<and> hi \<le> int (length xs)
      then Inr (take (nat hi - nat lo) (drop (nat lo) xs))
      else Inl SliceBoundsOutOfRange)"

text \<open>Sequencing of steps that may panic.\<close>

definition and_then :: "panic + 'a \<Rightarrow> ('a \<Rightarrow> panic + 'b) \<Rightarrow> panic + 'b" where
  "and_then r f = (case r of Inl p \<Rightarrow> Inl p | Inr v \<Rightarrow> f v)"

subsection \<open>Package \<open>html\<close>\<close>

definition escape_char :: "char \<Rightarrow> string" where
  "escape_char c =
     (if c = CHR ''&'' then ''&amp;''
      else if c = CHR 0x27 then ''&#39;''
      else if c = CHR ''<'' then ''&lt;''
      else if c = CHR ''>'' then ''&gt;''
      else if c = CHR 0x22 then ''&#34;''
      else [c])"

definition EscapeString :: "string \<Rightarrow> string" where
  "EscapeString s = concat (map escape_char s)"

section \<open>Media library (\<open>library.go\<close>, \<open>movie.go\<close>)\<close>

record Movie =
  ID :: string
  Title :: string
  Year :: int
  Duration :: int
  FilePath :: string
  FileSize :: int
  VideoCodec :: string
  VideoWidth :: int
  VideoHeight :: int
  VideoBitrate :: int
  AudioCodec :: string
  AudioChannels :: int
  ThumbnailPath :: string

text \<open>
  The library keeps its movies in a Go map from id to movie. A \<open>for ... range\<close> loop
  over a Go map visits every key once, in an order the run time chooses anew for each
  loop; a function that ranges over a map takes that order as the argument \<open>ks\<close>, and
  \<open>map_order m ks\<close> says that \<open>ks\<close> is such an order for the map \<open>m\<close>.
\<close>

record Library =
  movies :: "string \<rightharpoonup> Movie"

definition map_order :: "('k \<rightharpoonup> 'v) \<Rightarrow> 'k list \<Rightarrow> bool" where
  "map_order m ks = (distinct ks \<and> set ks = dom m)"

definition GetAllMovies :: "Library \<Rightarrow> string list \<Rightarrow> Movie list" where
  "GetAllMovies l ks = List.map_filter (movies l) ks"

definition GetMovie :: "Library \<Rightarrow> string \<Rightarrow> string + Movie" where
  "GetMovie l mid =
     (case movies l mid of
        None \<Rightarrow> Inl (''movie not found: '' @ mid)
      | Some movie \<Rightarrow> Inr movie)"

section \<open>ContentDirectory (\<open>contentdirectory.go\<close>)\<close>

record ContentDirectoryService =
  library :: Library
  serverAddr :: string
  updateID :: nat

definition extractXMLValue :: "string \<Rightarrow> string \<Rightarrow> panic + string" where
  "extractXMLValue xml tag =
     (let startTag = ''<'' @ tag @ ''>'';
          endTag = ''</'' @ tag @ ''>'';
          start = Index xml startTag
      in if start = - 1 then Inr []
         else let start = start + int (length startTag)
              in and_then (slice xml start (int (length xml))) (\<lambda>rest.
                   let e = Index rest endTag
                   in if e = - 1 then Inr [] else slice xml start (start + e)))"

definition didl_open_plain :: string where
  \<open>didl_open_plain = ''<DIDL-Lite xmlns="urn:schemas-upnp-org:metadata-1-0/DIDL-Lite/" xmlns:dc="http://purl.org/dc/elements/1.1/" xmlns:upnp="urn:schemas-upnp-org:metadata-1-0/upnp/">''\<close>

definition didl_open_dlna :: string where
  \<open>didl_open_dlna = ''<DIDL-Lite xmlns="urn:schemas-upnp-org:metadata-1-0/DIDL-Lite/" xmlns:dc="http://purl.org/dc/elements/1.1/" xmlns:upnp="urn:schemas-upnp-org:metadata-1-0/upnp/" xmlns:dlna="urn:schemas-dlna-org:metadata-1-0/">''\<close>

definition didl_empty :: string where
  \<open>didl_empty = ''<DIDL-Lite xmlns="urn:schemas-upnp-org:metadata-1-0/DIDL-Lite/"></DIDL-Lite>''\<close>

definition buildRootContainerMetadata :: string where
  \<open>buildRootContainerMetadata =
     didl_open_plain @ ''\<newline><container id="0" parentID="-1" restricted="1" searchable="0">\<newline><dc:title>Root</dc:title>\<newline><upnp:class>object.container</upnp:class>\<newline></container>\<newline></DIDL-Lite>''\<close>

definition movies_container :: "int \<Rightarrow> string" where
  \<open>movies_container n =
     didl_open_plain @ ''\<newline><container id="movies" parentID="0" restricted="1" childCount="'' @ Itoa n
       @ ''">\<newline><dc:title>Movies</dc:title>\<newline><upnp:class>object.container.storageFolder</upnp:class>\<newline></container>\<newline></DIDL-Lite>''\<close>

definition buildRootContainerChildren ::
    "ContentDirectoryService \<Rightarrow> string list \<Rightarrow> int \<Rightarrow> int \<Rightarrow> string \<times> int \<times> int" where
  "buildRootContainerChildren s ks start count =
     (movies_container (int (length (GetAllMovies (library s) ks))), 1, 1)"

definition buildMoviesContainerMetadata :: "ContentDirectoryService \<Rightarrow> string list \<Rightarrow> string" where
  "buildMoviesContainerMetadata s ks =
     movies_container (int (length (GetAllMovies (library s) ks)))"

definition buildMovieItem :: "ContentDirectoryService \<Rightarrow> Movie \<Rightarrow> string" where
  \<open>buildMovieItem s movie =
     (let title = EscapeString (Title movie);
          streamURL = serverAddr s @ ''/stream/'' @ ID movie;
          hours = Duration movie sdiv 3600;
          minutes = (Duration movie smod 3600) sdiv 60;
          seconds = Duration movie smod 60;
          duration = Itoa hours @ '':'' @ pad2 minutes @ '':'' @ pad2 seconds;
          dlnaProfile = (if VideoCodec movie = ''hevc'' \<or> VideoCodec movie = ''h265''
                         then ''DLNA.ORG_PN=HEVC_Main10_L5''
                         else ''DLNA.ORG_PN=AVC_MP4_MP_SD_AAC_MULT5'');
          resolution = Itoa (VideoWidth movie) @ ''x'' @ Itoa (VideoHeight movie)
      in ''\<newline><item id="'' @ ID movie @ ''" parentID="movies" restricted="1">\<newline><dc:title>''
           @ title @ ''</dc:title>\<newline><upnp:class>object.item.videoItem.movie</upnp:class>\<newline><res protocolInfo="http-get:*:video/mp4:''
           @ dlnaProfile @ '';DLNA.ORG_OP=01;DLNA.ORG_FLAGS=01700000000000000000000000000000" size="''
           @ Itoa (FileSize movie) @ ''" duration="'' @ duration @ ''" resolution="'' @ resolution
           @ ''">'' @ EscapeString streamURL @ ''</res>\<newline></item>'')\<close>

text \<open>The DIDL-Lite document that \<open>buildMoviesList\<close> writes for a page of movies.\<close>

definition movies_didl :: "ContentDirectoryService \<Rightarrow> Movie list \<Rightarrow> string" where
  "movies_didl s page = didl_open_dlna @ concat (map (buildMovieItem s) page) @ ''</DIDL-Lite>''"

definition buildMoviesList ::
    "ContentDirectoryService \<Rightarrow> string list \<Rightarrow> int \<Rightarrow> int \<Rightarrow> panic + string \<times> int \<times> int" where
  "buildMoviesList s ks start count =
     (let movies = GetAllMovies (library s) ks;
          totalMatches = int (length movies);
          e = wrap64 (start + count);
          e = (if e > int (length movies) then int (length movies) else e);
          start = (if start > int (length movies) then int (length movies) else start)
      in and_then (slice movies start e) (\<lambda>paginatedMovies.
           Inr (movies_didl s paginatedMovies, int (length paginatedMovies), totalMatches)))"

definition buildItemMetadata :: "ContentDirectoryService \<Rightarrow> string \<Rightarrow> string \<times> int \<times> int" where
  "buildItemMetadata s objectID =
     (case GetMovie (library s) objectID of
        Inl err \<Rightarrow> (didl_empty, 0, 0)
      | Inr movie \<Rightarrow> (didl_open_dlna @ buildMovieItem s movie @ ''</DIDL-Lite>'', 1, 1))"

definition soap_open :: string where
  \<open>soap_open = ''<?xml version="1.0" encoding="UTF-8"?>\<newline><s:Envelope xmlns:s="http://schemas.xmlsoap.org/soap/envelope/" s:encodingStyle="http://schemas.xmlsoap.org/soap/encoding/">\<newline><s:Body>\<newline>''\<close>

definition soap_close :: string where
  \<open>soap_close = ''</s:Body>\<newline></s:Envelope>''\<close>

definition wrapBrowseResponse :: "ContentDirectoryService \<Rightarrow> string \<Rightarrow> int \<Rightarrow> int \<Rightarrow> string" where
  \<open>wrapBrowseResponse s didl numberReturned totalMatches =
     (let escapedDIDL = EscapeString didl
      in soap_open @ ''<u:BrowseResponse xmlns:u="urn:schemas-upnp-org:service:ContentDirectory:1">\<newline><Result>''
           @ escapedDIDL @ ''</Result>\<newline><NumberReturned>'' @ Itoa numberReturned
           @ ''</NumberReturned>\<newline><TotalMatches>'' @ Itoa totalMatches
           @ ''</TotalMatches>\<newline><UpdateID>'' @ Itoa (int (updateID s))
           @ ''</UpdateID>\<newline></u:BrowseResponse>\<newline>'' @ soap_close)\<close>

text \<open>
  \<open>handleBrowse\<close>. The argument \<open>ks\<close> is the order in which the library map is ranged
  over while this request is served.
\<close>

definition handleBrowse :: "ContentDirectoryService \<Rightarrow> string list \<Rightarrow> string \<Rightarrow> panic + string" where
  "handleBrowse s ks bodyStr =
     and_then (extractXMLValue bodyStr ''ObjectID'') (\<lambda>ObjectID.
     and_then (extractXMLValue bodyStr ''BrowseFlag'') (\<lambda>BrowseFlag.
     and_then (extractXMLValue bodyStr ''Filter'') (\<lambda>Filter.
     and_then (extractXMLValue bodyStr ''StartingIndex'') (\<lambda>startText.
     and_then (extractXMLValue bodyStr ''RequestedCount'') (\<lambda>countText.
     and_then (extractXMLValue bodyStr ''SortCriteria'') (\<lambda>SortCriteria.
       let StartingIndex = Atoi startText;
           RequestedCount = Atoi countText;
           RequestedCount = (if RequestedCount = 0 then 100 else RequestedCount)
       in and_then
            (if ObjectID = ''0'' then
               (if BrowseFlag = ''BrowseMetadata'' then Inr (buildRootContainerMetadata, 1, 1)
                else Inr (buildRootContainerChildren s ks StartingIndex RequestedCount))
             else if ObjectID = ''movies'' then
               (if BrowseFlag = ''BrowseMetadata''
                then Inr (buildMoviesContainerMetadata s ks, 1, 1)
                else buildMoviesList s ks StartingIndex RequestedCount)
             else Inr (buildItemMetadata s ObjectID))
            (\<lambda>(didl, numberReturned, totalMatches).
               Inr (wrapBrowseResponse s didl numberReturned totalMatches))))))))"




text \<open>
  An HTTP response: status, headers and body. \<open>http.Error\<close> answers with a plain-text
  message and a line feed.
\<close>

record http_response =
  status :: nat
  headers :: "(string \<times> string) list"
  body :: string

definition http_Error :: "string \<Rightarrow> nat \<Rightarrow> http_response" where
  "http_Error msg code =
     \<lparr>status = code,
      headers = [(''Content-Type'', ''text/plain; charset=utf-8''),
                 (''X-Content-Type-Options'', ''nosniff'')],
      body = msg @ ''\<newline>''\<rparr>"



section \<open>HLS session manager (\<open>hls.go\<close>)\<close>

text \<open>
  A session; the field \<open>ID\<close> of the source is \<open>SessionID\<close> here. Times are instants in
  nanoseconds, the process handle is the process id when a transcoder was started.
\<close>

record HLSSession =
  SessionID :: string
  MovieID :: string
  Dir :: string
  LastAccessed :: int
  Process :: "nat option"

text \<open>
  The manager with the part of the operating system it owns: \<open>dirs\<close> are the session
  directories that exist below the base directory, \<open>killed\<close> the processes it has killed.
\<close>

record HLSManager =
  sessions :: "string \<rightharpoonup> HLSSession"
  baseDir :: string
  dirs :: "string set"
  killed :: "nat set"

text \<open>\<open>NewHLSManager\<close> wipes the base directory and starts with no session.\<close>

definition NewHLSManager :: "string \<Rightarrow> HLSManager" where
  "NewHLSManager base = \<lparr>sessions = Map.empty, baseDir = base, dirs = {}, killed = {}\<rparr>"

text \<open>
  The loop \<open>for _, s := range m.sessions\<close> that returns at the first session of the
  movie; \<open>ks\<close> is the order in which the run time ranges over the map.
\<close>

fun find_session ::
    "(string \<rightharpoonup> HLSSession) \<Rightarrow> string \<Rightarrow> string list \<Rightarrow> (string \<times> HLSSession) option" where
  "find_session m movieID [] = None"
| "find_session m movieID (k # ks) =
     (case m k of
        Some s \<Rightarrow> if MovieID s = movieID then Some (k, s) else find_session m movieID ks
      | None \<Rightarrow> find_session m movieID ks)"

definition GetSession ::
    "HLSManager \<Rightarrow> string \<Rightarrow> int \<Rightarrow> string list \<Rightarrow> HLSSession option \<times> HLSManager" where
  "GetSession m movieID now ks =
     (case find_session (sessions m) movieID ks of
        Some (k, s) \<Rightarrow>
          (let s' = s\<lparr>LastAccessed := now\<rparr>
           in (Some s', m\<lparr>sessions := (sessions m)(k \<mapsto> s')\<rparr>))
      | None \<Rightarrow> (None, m))"

text \<open>
  What one call of \<open>CreateSession\<close> takes from its environment: the clock at the lookup
  and at the creation, the two orders in which the session map is ranged over, the
  identifier that \<open>uuid.New\<close> returns and the outcome of \<open>os.MkdirAll\<close>.
\<close>

record create_env =
  now1 :: int
  range1 :: "string list"
  range2 :: "string list"
  new_uuid :: string
  mkdir_error :: "string option"
  now2 :: int

text \<open>
  \<open>CreateSession\<close> takes the lock twice: once inside \<open>GetSession\<close>, and once for the second
  look at the map and the creation. Other calls can run between the two; \<open>CreateSession_locked\<close>
  is the second critical section.
\<close>

definition CreateSession_locked ::
    "HLSManager \<Rightarrow> string \<Rightarrow> create_env \<Rightarrow> (string + HLSSession) \<times> HLSManager" where
  "CreateSession_locked m movieID env =
     (case find_session (sessions m) movieID (range2 env) of
        Some (k, s) \<Rightarrow> (Inr s, m)
      | None \<Rightarrow>
          (let sid = new_uuid env;
               dir = Join [baseDir m, sid]
           in case mkdir_error env of
                Some err \<Rightarrow> (Inl err, m)
              | None \<Rightarrow>
                  (let session = \<lparr>SessionID = sid, MovieID = movieID, Dir = dir,
                                   LastAccessed = now2 env, Process = None\<rparr>
                   in (Inr session,
                       m\<lparr>sessions := (sessions m)(sid \<mapsto> session),
                         dirs := insert dir (dirs m)\<rparr>))))"

definition CreateSession ::
    "HLSManager \<Rightarrow> string \<Rightarrow> create_env \<Rightarrow> (string + HLSSession) \<times> HLSManager" where
  "CreateSession m movieID env =
     (case GetSession m movieID (now1 env) (range1 env) of
        (Some s, m1) \<Rightarrow> (Inr s, m1)
      | (None, m1) \<Rightarrow> CreateSession_locked m1 movieID env)"

definition GetSessionByID :: "HLSManager \<Rightarrow> string \<Rightarrow> int \<Rightarrow> HLSSession option \<times> HLSManager" where
  "GetSessionByID m sid now =
     (case sessions m sid of
        Some s \<Rightarrow>
          (let s' = s\<lparr>LastAccessed := now\<rparr>
           in (Some s', m\<lparr>sessions := (sessions m)(sid \<mapsto> s')\<rparr>))
      | None \<Rightarrow> (None, m))"

definition terminateSession :: "HLSManager \<Rightarrow> HLSSession \<Rightarrow> HLSManager" where
  "terminateSession m s =
     m\<lparr>killed := (case Process s of Some pid \<Rightarrow> insert pid (killed m) | None \<Rightarrow> killed m),
       dirs := dirs m - {Dir s}\<rparr>"

definition ten_minutes :: int where
  "ten_minutes = 10 * 60 * 1000000000"

definition cleanupOldSessions :: "HLSManager \<Rightarrow> int \<Rightarrow> string list \<Rightarrow> HLSManager" where
  "cleanupOldSessions m now ks =
     (let cutoff = now - ten_minutes
      in foldl (\<lambda>m k. case sessions m k of
                          Some s \<Rightarrow>
                            if LastAccessed s < cutoff
                            then (terminateSession m s)\<lparr>sessions := (sessions m)(k := None)\<rparr>
                            else m
                        | None \<Rightarrow> m) m ks)"

definition Stop :: "HLSManager \<Rightarrow> string list \<Rightarrow> HLSManager" where
  "Stop m ks =
     foldl (\<lambda>m k. case sessions m k of Some s \<Rightarrow> terminateSession m s | None \<Rightarrow> m) m ks"

definition GetPlaylistPath :: "HLSManager \<Rightarrow> string \<Rightarrow> string" where
  "GetPlaylistPath m sessionID = Join [baseDir m, sessionID, ''playlist.m3u8'']"

text \<open>
  The handler of a playlist request stores the process handle in the session it was
  given (\<open>session.Process = process\<close>); the session is shared with the map.
\<close>

definition set_process :: "HLSManager \<Rightarrow> string \<Rightarrow> nat \<Rightarrow> HLSManager" where
  "set_process m sid pid =
     (case sessions m sid of
        Some s \<Rightarrow> m\<lparr>sessions := (sessions m)(sid \<mapsto> s\<lparr>Process := Some pid\<rparr>)\<rparr>
      | None \<Rightarrow> m)"

text \<open>
  The states the manager can be in: it starts empty, and every critical section runs on
  the state the one before it has left, with an order that ranges over the sessions held
  at that moment. Calls that run at the same time interleave at these sections: the second
  section of \<open>CreateSession\<close> may run on any later state than its first.
\<close>

inductive reachable :: "HLSManager \<Rightarrow> bool" where
  start: "reachable (NewHLSManager base)"
| get: "reachable m \<Longrightarrow> map_order (sessions m) ks
         \<Longrightarrow> reachable (snd (GetSession m movieID now ks))"
| create: "reachable m \<Longrightarrow> map_order (sessions m) (range1 env)
         \<Longrightarrow> map_order (sessions m) (range2 env)
         \<Longrightarrow> reachable (snd (CreateSession m movieID env))"
| create_locked: "reachable m \<Longrightarrow> map_order (sessions m) (range2 env)
         \<Longrightarrow> reachable (snd (CreateSession_locked m movieID env))"
| by_id: "reachable m \<Longrightarrow> reachable (snd (GetSessionByID m sid now))"
| process: "reachable m \<Longrightarrow> reachable (set_process m sid pid)"
| cleanup: "reachable m \<Longrightarrow> map_order (sessions m) ks
         \<Longrightarrow> reachable (cleanupOldSessions m now ks)"
| stop: "reachable m \<Longrightarrow> map_order (sessions m) ks \<Longrightarrow> reachable (Stop m ks)"

text \<open>The sessions of a movie that the map holds.\<close>

definition sessions_of :: "HLSManager \<Rightarrow> string \<Rightarrow> string set" where
  "sessions_of m movieID = {k. \<exists>s. sessions m k = Some s \<and> MovieID s = movieID}"

section \<open>Transcoder (\<open>transcoder.go\<close>)\<close>

definition NeedsTranscode :: "Movie \<Rightarrow> bool \<Rightarrow> bool" where
  "NeedsTranscode movie burnSubtitle =
     (let compatibleCodecs = [''h264'', ''avc'', ''avc1''];
          codecCompatible = list_ex (\<lambda>codec. EqualFold (VideoCodec movie) codec) compatibleCodecs
      in if burnSubtitle then True else \<not> codecCompatible)"

text \<open>
  Starting the external transcoder: what the operating system answers when the pipes are
  made and the process is started. The argument vector plays no part in the outcome.
\<close>

record spawn_env =
  stderr_pipe_error :: "string option"
  stdout_pipe_error :: "string option"
  start_error :: "string option"
  new_pid :: nat
  stdout_bytes :: string

definition StartHLSTranscode :: "spawn_env \<Rightarrow> string + nat" where
  "StartHLSTranscode env =
     (case stderr_pipe_error env of
        Some err \<Rightarrow> Inl (''failed to create stderr pipe: '' @ err)
      | None \<Rightarrow>
          (case start_error env of
             Some err \<Rightarrow> Inl (''failed to start ffmpeg: '' @ err)
           | None \<Rightarrow> Inr (new_pid env)))"

text \<open>\<open>Transcode\<close> returns a reader of the standard output of the transcoder.\<close>

definition Transcode :: "spawn_env \<Rightarrow> string + string" where
  "Transcode env =
     (case stderr_pipe_error env of
        Some err \<Rightarrow> Inl (''failed to create stderr pipe: '' @ err)
      | None \<Rightarrow>
          (case stdout_pipe_error env of
             Some err \<Rightarrow> Inl (''failed to create stdout pipe: '' @ err)
           | None \<Rightarrow>
               (case start_error env of
                  Some err \<Rightarrow> Inl (''failed to start ffmpeg: '' @ err)
                | None \<Rightarrow> Inr (stdout_bytes env))))"

section \<open>Stream dispatcher (\<open>stream.go\<close>): the handlers\<close>

text \<open>
  What a handler does with the response writer: it writes a complete response, or it
  hands the request to \<open>http.ServeFile\<close> or \<open>http.ServeContent\<close> (which serve the
  byte ranges of a file) with the headers it has set, or it redirects.
\<close>

datatype reply =
    Reply http_response
  | ServeFile "(string \<times> string) list" string
  | ServeContent "(string \<times> string) list" string
  | Redirect string nat

text \<open>\<open>http.Error\<close> after headers were set: it replaces the content type only.\<close>

definition http_Error_after :: "(string \<times> string) list \<Rightarrow> string \<Rightarrow> nat \<Rightarrow> http_response" where
  "http_Error_after hs msg code =
     \<lparr>status = code,
      headers = filter (\<lambda>(k, v). k \<noteq> ''Content-Type'') hs
                  @ [(''Content-Type'', ''text/plain; charset=utf-8''),
                     (''X-Content-Type-Options'', ''nosniff'')],
      body = msg @ ''\<newline>''\<rparr>"

text \<open>The query of the request URL; \<open>Get\<close> gives the first value of a key or the empty string.\<close>

type_synonym query = "(string \<times> string) list"

definition Query_Get :: "query \<Rightarrow> string \<Rightarrow> string" where
  "Query_Get q k = (case map_of q k of Some v \<Rightarrow> v | None \<Rightarrow> [])"

record StreamHandler =
  lib :: Library
  hlsManager :: HLSManager

text \<open>
  What one request takes from its environment: the session manager's clock, orders and
  identifier, the transcoder processes, the polls for the playlist file (\<open>playlist_seen i\<close>
  for the \<open>i\<close>-th poll of the loop, \<open>playlist_missing\<close> for the check after it), the files
  of the scratch directory, and whether the movie file can be opened.
\<close>

record request_env =
  creation :: create_env
  spawn :: spawn_env
  playlist_seen :: "nat \<Rightarrow> bool"
  playlist_missing :: bool
  scratch :: files
  open_fails :: bool
  stat_fails :: bool
  encode_query :: "query \<Rightarrow> string"

text \<open>The loop that waits for the playlist: the number of half-second sleeps it takes.\<close>

fun wait_playlist :: "(nat \<Rightarrow> bool) \<Rightarrow> nat \<Rightarrow> nat \<Rightarrow> nat" where
  "wait_playlist seen i 0 = i"
| "wait_playlist seen i (Suc n) = (if seen i then i else wait_playlist seen (Suc i) n)"

definition serve_playlist_file :: "HLSManager \<Rightarrow> HLSSession \<Rightarrow> request_env \<Rightarrow> reply" where
  "serve_playlist_file m session env =
     (let playlistPath = GetPlaylistPath m (SessionID session)
      in if playlist_missing env then Reply (http_Error ''Playlist not ready yet'' 503)
         else ServeFile [(''Content-Type'', ''application/vnd.apple.mpegurl''),
                         (''Cache-Control'', ''no-cache'')] playlistPath)"

definition serveHLSPlaylist ::
    "StreamHandler \<Rightarrow> string \<Rightarrow> request_env \<Rightarrow> reply \<times> StreamHandler" where
  "serveHLSPlaylist h movieID env =
     (case GetSession (hlsManager h) movieID (now1 (creation env)) (range1 (creation env)) of
        (Some session, m1) \<Rightarrow> (serve_playlist_file m1 session env, h\<lparr>hlsManager := m1\<rparr>)
      | (None, m1) \<Rightarrow>
          (case GetMovie (lib h) movieID of
             Inl err \<Rightarrow> (Reply (http_Error ''Movie not found'' 404), h\<lparr>hlsManager := m1\<rparr>)
           | Inr movie \<Rightarrow>
               (case CreateSession m1 movieID (creation env) of
                  (Inl err, m2) \<Rightarrow>
                    (Reply (http_Error (''Failed to create HLS session: '' @ err) 500),
                     h\<lparr>hlsManager := m2\<rparr>)
                | (Inr session, m2) \<Rightarrow>
                    (case StartHLSTranscode (spawn env) of
                       Inl err \<Rightarrow>
                         (Reply (http_Error (''Failed to start HLS transcoding: '' @ err) 500),
                          h\<lparr>hlsManager := m2\<rparr>)
                     | Inr pid \<Rightarrow>
                         (let m3 = set_process m2 (SessionID session) pid;
                              sleeps = wait_playlist (playlist_seen env) 0 30
                          in (serve_playlist_file m3 session env, h\<lparr>hlsManager := m3\<rparr>))))))"

definition serveHLSSegment ::
    "StreamHandler \<Rightarrow> string \<Rightarrow> string \<Rightarrow> request_env \<Rightarrow> reply \<times> StreamHandler" where
  "serveHLSSegment h movieID filename env =
     (case GetSession (hlsManager h) movieID (now1 (creation env)) (range1 (creation env)) of
        (None, m1) \<Rightarrow> (Reply (http_Error ''Session expired'' 404), h\<lparr>hlsManager := m1\<rparr>)
      | (Some session, m1) \<Rightarrow>
          (let hs = [(''Content-Type'', ''video/mp2t''), (''Cache-Control'', ''max-age=3600'')]
           in case CopySegment (scratch env) (baseDir m1) (SessionID session) filename of
                Inl err \<Rightarrow>
                  (Reply (http_Error_after hs ''Segment not found'' 404), h\<lparr>hlsManager := m1\<rparr>)
              | Inr bytes \<Rightarrow>
                  (Reply \<lparr>status = 200, headers = hs, body = bytes\<rparr>, h\<lparr>hlsManager := m1\<rparr>)))"

definition getContentType :: "string \<Rightarrow> string" where
  "getContentType path =
     (let ext = ToLower path
      in if HasSuffix ext ''.mp4'' \<or> HasSuffix ext ''.m4v'' then ''video/mp4''
         else if HasSuffix ext ''.mkv'' then ''video/x-matroska''
         else if HasSuffix ext ''.avi'' then ''video/x-msvideo''
         else if HasSuffix ext ''.webm'' then ''video/webm''
         else if HasSuffix ext ''.mov'' then ''video/quicktime''
         else if HasSuffix ext ''.wmv'' then ''video/x-ms-wmv''
         else if HasSuffix ext ''.ts'' \<or> HasSuffix ext ''.m2ts'' then ''video/mp2t''
         else ''video/mp4'')"

definition serveDirectStream :: "Movie \<Rightarrow> request_env \<Rightarrow> reply" where
  "serveDirectStream movie env =
     (if open_fails env then Reply (http_Error ''Failed to open file'' 500)
      else if stat_fails env then Reply (http_Error ''Failed to stat file'' 500)
      else ServeContent [(''Content-Type'', getContentType (FilePath movie)),
                         (''Accept-Ranges'', ''bytes'')] (FilePath movie))"

definition serveTranscodedStream :: "Movie \<Rightarrow> string \<Rightarrow> int \<Rightarrow> request_env \<Rightarrow> reply" where
  "serveTranscodedStream movie subtitlePath subtitleIndex env =
     (case Transcode (spawn env) of
        Inl err \<Rightarrow> Reply (http_Error (''Transcoding failed: '' @ err) 500)
      | Inr reader \<Rightarrow>
          Reply \<lparr>status = 200,
                 headers = [(''Content-Type'', ''video/mp4''),
                            (''Transfer-Encoding'', ''chunked''),
                            (''Cache-Control'', ''no-cache''),
                            (''transferMode.dlna.org'', ''Streaming''),
                            (''contentFeatures.dlna.org'',
                             ''DLNA.ORG_OP=01;DLNA.ORG_CI=1;DLNA.ORG_FLAGS=01700000000000000000000000000000'')],
                 body = reader\<rparr>)"

text \<open>The two assignments of \<open>ServeHTTP\<close> that decide whether the stream is transcoded.\<close>

definition needsTranscode :: "Movie \<Rightarrow> query \<Rightarrow> bool" where
  "needsTranscode movie q =
     (let transcode = (Query_Get q ''transcode'' = ''1'');
          subtitlePath = Query_Get q ''subtitle'';
          subtitleIndexStr = Query_Get q ''subtitle_index'';
          subtitleIndex = (if subtitleIndexStr \<noteq> [] then Atoi subtitleIndexStr else - 1);
          needs = (transcode \<or> subtitlePath \<noteq> [] \<or> subtitleIndex \<ge> 0)
      in needs \<or> NeedsTranscode movie (subtitlePath \<noteq> [] \<or> subtitleIndex \<ge> 0))"

definition ServeHTTP ::
    "StreamHandler \<Rightarrow> string \<Rightarrow> query \<Rightarrow> request_env \<Rightarrow> reply \<times> StreamHandler" where
  "ServeHTTP h urlPath q env =
     (case route_path urlPath of
        InvalidStreamPath \<Rightarrow> (Reply (http_Error ''Invalid stream path'' 400), h)
      | InvalidHLSPath \<Rightarrow> (Reply (http_Error ''Invalid HLS path'' 400), h)
      | InvalidHLSFile \<Rightarrow> (Reply (http_Error ''Invalid HLS file'' 400), h)
      | HLSPlaylist movieID \<Rightarrow> serveHLSPlaylist h movieID env
      | HLSSegment movieID filename \<Rightarrow> serveHLSSegment h movieID filename env
      | PlainStream movieID \<Rightarrow>
          (case GetMovie (lib h) movieID of
             Inl err \<Rightarrow> (Reply (http_Error ''Movie not found'' 404), h)
           | Inr movie \<Rightarrow>
               (let subtitlePath = Query_Get q ''subtitle'';
                    subtitleIndexStr = Query_Get q ''subtitle_index'';
                    format = Query_Get q ''format'';
                    subtitleIndex = (if subtitleIndexStr \<noteq> [] then Atoi subtitleIndexStr else - 1)
                in if format = ''hls'' then
                     (let q' = filter (\<lambda>(k, v). k \<noteq> ''format'') q;
                          hlsURL = ''/stream/'' @ movieID @ ''/hls/playlist.m3u8'';
                          hlsURL = (if q' \<noteq> [] then hlsURL @ ''?'' @ encode_query env q' else hlsURL)
                      in (Redirect hlsURL 307, h))
                   else if needsTranscode movie q
                   then (serveTranscodedStream movie subtitlePath subtitleIndex env, h)
                   else (serveDirectStream movie env, h))))"


section \<open>SSDP peer (\<open>ssdp.go\<close>)\<close>



text \<open>\<open>strings.TrimSpace\<close> on ASCII white space, and \<open>strings.SplitN\<close> for a count above 0.\<close>

definition is_space :: "char \<Rightarrow> bool" where
  "is_space c = (c \<in> set [CHR '' '', CHR 0x09, CHR 0x0A, CHR 0x0B, CHR 0x0C, CHR 0x0D])"

definition TrimSpace :: "string \<Rightarrow> string" where
  "TrimSpace s = rev (dropWhile is_space (rev (dropWhile is_space s)))"

function SplitNAcc :: "string \<Rightarrow> nat \<Rightarrow> string \<Rightarrow> string \<Rightarrow> string list" where
  "SplitNAcc sep n cur [] = [rev cur]"
| "SplitNAcc sep n cur (c # cs) =
     (if n \<le> 1 then [rev cur @ c # cs]
      else if sep \<noteq> [] \<and> HasPrefix (c # cs) sep
      then rev cur # SplitNAcc sep (n - 1) [] (drop (length sep) (c # cs))
      else SplitNAcc sep n (c # cur) cs)"
  by pat_completeness auto
termination
  by (relation "measure (\<lambda>(sep, n, cur, s). length s)") (auto simp: neq_Nil_conv)

definition SplitN :: "string \<Rightarrow> string \<Rightarrow> nat \<Rightarrow> string list" where
  "SplitN s sep n = SplitNAcc sep n [] s"

text \<open>
  A discovered renderer and the peer. The field \<open>serverAddr\<close> of the peer is
  \<open>ssdpServerAddr\<close> here. \<open>LastSeen\<close> is an instant in nanoseconds.
\<close>

record DLNADevice =
  UUID :: string
  FriendlyName :: string
  Location :: string
  DeviceType :: string
  LastSeen :: int
  Manufacturer :: string
  ModelName :: string

record SSDPServer =
  uuid :: string
  friendlyName :: string
  ssdpServerAddr :: string
  devices :: "string \<rightharpoonup> DLNADevice"











definition new_device :: "string \<Rightarrow> string \<Rightarrow> string \<Rightarrow> int \<Rightarrow> DLNADevice" where
  "new_device devUUID deviceType location now =
     \<lparr>UUID = devUUID, FriendlyName = [], Location = location, DeviceType = deviceType,
      LastSeen = now, Manufacturer = [], ModelName = []\<rparr>"




definition GetDevice :: "SSDPServer \<Rightarrow> string \<Rightarrow> string + DLNADevice" where
  "GetDevice s devUUID =
     (case devices s devUUID of
        None \<Rightarrow> Inl (''device not found: '' @ devUUID)
      | Some device \<Rightarrow> Inr device)"





section \<open>AVTransport client (\<open>avtransport.go\<close>)\<close>

text \<open>
  The HTTP client against the renderer. Each request is recorded in \<open>sent\<close> and answered
  by the next element of \<open>answers\<close>: the request could not be built or sent, the body could
  not be read, or a response with a status and a body arrived.
\<close>

datatype http_answer =
    RequestFailed string
  | SendFailed string
  | ReadFailed string
  | Received nat string

datatype http_request =
    GET string
  | POST string string string

record renderer_net =
  answers :: "http_answer list"
  sent :: "http_request list"

definition http_do :: "http_request \<Rightarrow> renderer_net \<Rightarrow> http_answer \<times> renderer_net" where
  "http_do req w =
     (case answers w of
        [] \<Rightarrow> (SendFailed ''no answer'', w\<lparr>sent := sent w @ [req]\<rparr>)
      | a # rest \<Rightarrow>
          (case a of
             RequestFailed err \<Rightarrow> (a, w\<lparr>answers := rest\<rparr>)
           | _ \<Rightarrow> (a, w\<lparr>answers := rest, sent := sent w @ [req]\<rparr>)))"

text \<open>\<open>xml.EscapeText\<close> on ASCII text.\<close>

definition xml_escape_char :: "char \<Rightarrow> string" where
  "xml_escape_char c =
     (if c = CHR 0x22 then ''&#34;''
      else if c = CHR 0x27 then ''&#39;''
      else if c = CHR ''&'' then ''&amp;''
      else if c = CHR ''<'' then ''&lt;''
      else if c = CHR ''>'' then ''&gt;''
      else if c = CHR 0x09 then ''&#x9;''
      else if c = CHR 0x0A then ''&#xA;''
      else if c = CHR 0x0D then ''&#xD;''
      else if (of_char c :: nat) < 32 then [CHR 0xEF, CHR 0xBF, CHR 0xBD]
      else [c])"

definition xmlEscape :: "string \<Rightarrow> string" where
  "xmlEscape s = concat (map xml_escape_char s)"

text \<open>\<open>strings.LastIndex\<close>.\<close>

fun LastIndexFrom :: "nat \<Rightarrow> int \<Rightarrow> string \<Rightarrow> string \<Rightarrow> int" where
  "LastIndexFrom i found [] sub = (if sub = [] then int i else found)"
| "LastIndexFrom i found (c # cs) sub =
     LastIndexFrom (Suc i) (if HasPrefix (c # cs) sub then int i else found) cs sub"

definition LastIndex :: "string \<Rightarrow> string \<Rightarrow> int" where
  "LastIndex s sub = LastIndexFrom 0 (- 1) s sub"

text \<open>
  \<open>extractControlURL\<close>. Its slice expressions take bounds that \<open>strings.Index\<close> has
  just returned for the same string, so they are written with \<open>take\<close> and \<open>drop\<close>.
\<close>

definition extractControlURL :: "string \<Rightarrow> string \<Rightarrow> string" where
  "extractControlURL xmlContent serviceType =
     (let serviceStart = Index xmlContent serviceType
      in if serviceStart = - 1 then []
         else let serviceEnd = Index (drop (nat serviceStart) xmlContent) ''</service>''
              in if serviceEnd = - 1 then []
                 else let serviceBlock = take (nat serviceEnd) (drop (nat serviceStart) xmlContent);
                          controlStart = Index serviceBlock ''<controlURL>''
                      in if controlStart = - 1 then []
                         else let controlStart = controlStart + int (length ''<controlURL>'');
                                  controlEnd = Index (drop (nat controlStart) serviceBlock) ''</controlURL>''
                              in if controlEnd = - 1 then []
                                 else TrimSpace (take (nat controlEnd)
                                                   (drop (nat controlStart) serviceBlock)))"

definition getAVTransportControlURL :: "DLNADevice \<Rightarrow> renderer_net \<Rightarrow> string \<times> renderer_net" where
  "getAVTransportControlURL device w =
     (if Location device = [] then ([], w)
      else case http_do (GET (Location device)) w of
             (Received code description, w1) \<Rightarrow>
               (let controlURL = extractControlURL description ''AVTransport''
                in if controlURL = [] then ([], w1)
                   else let baseURL = Location device;
                            idx = LastIndex baseURL ''/'';
                            baseURL = (if idx > 0 then take (nat idx) baseURL else baseURL);
                            parts = SplitN (Location device) ''/'' 4
                        in if HasPrefix controlURL ''/'' \<and> length parts \<ge> 3
                           then (parts ! 0 @ ''//'' @ parts ! 2 @ controlURL, w1)
                           else if \<not> HasPrefix controlURL ''http''
                           then (baseURL @ ''/'' @ controlURL, w1)
                           else (controlURL, w1))
           | (other, w1) \<Rightarrow> ([], w1))"

definition sendSOAPActionWithResponse ::
    "string \<Rightarrow> string \<Rightarrow> string \<Rightarrow> renderer_net \<Rightarrow> (string + string) \<times> renderer_net" where
  "sendSOAPActionWithResponse controlURL soapAction soapBody w =
     (case http_do (POST controlURL ([CHR 0x22] @ soapAction @ [CHR 0x22]) soapBody) w of
        (RequestFailed err, w1) \<Rightarrow> (Inl (''failed to create request: '' @ err), w1)
      | (SendFailed err, w1) \<Rightarrow> (Inl (''failed to send request: '' @ err), w1)
      | (ReadFailed err, w1) \<Rightarrow> (Inl (''failed to read response: '' @ err), w1)
      | (Received code respBody, w1) \<Rightarrow>
          (if code \<noteq> 200
           then (Inl (''SOAP action failed with status '' @ Itoa (int code) @ '': '' @ respBody), w1)
           else (Inr respBody, w1)))"

text \<open>\<open>sendSOAPAction\<close> keeps the error only: \<open>None\<close> is the result \<open>nil\<close>.\<close>

definition sendSOAPAction ::
    "string \<Rightarrow> string \<Rightarrow> string \<Rightarrow> renderer_net \<Rightarrow> string option \<times> renderer_net" where
  "sendSOAPAction controlURL soapAction soapBody w =
     (case sendSOAPActionWithResponse controlURL soapAction soapBody w of
        (Inl err, w1) \<Rightarrow> (Some err, w1)
      | (Inr resp, w1) \<Rightarrow> (None, w1))"

definition no_control_url :: string where
  "no_control_url = ''AVTransport control URL not found for device''"

definition avt :: string where
  "avt = ''urn:schemas-upnp-org:service:AVTransport:1''"

text \<open>The envelope of an action with its arguments, as each operation writes it out.\<close>

definition soap_envelope :: "string \<Rightarrow> string \<Rightarrow> string" where
  \<open>soap_envelope action args =
     soap_open @ ''<u:'' @ action @ '' xmlns:u="urn:schemas-upnp-org:service:AVTransport:1">\<newline>''
       @ args @ ''</u:'' @ action @ ''>\<newline>'' @ soap_close\<close>

definition SetAVTransportURI ::
    "DLNADevice \<Rightarrow> string \<Rightarrow> string \<Rightarrow> renderer_net \<Rightarrow> string option \<times> renderer_net" where
  \<open>SetAVTransportURI device mediaURL title w =
     (case getAVTransportControlURL device w of (controlURL, w1) \<Rightarrow>
        if controlURL = [] then (Some no_control_url, w1)
        else let metadata = ''&lt;DIDL-Lite xmlns="urn:schemas-upnp-org:metadata-1-0/DIDL-Lite/" xmlns:dc="http://purl.org/dc/elements/1.1/" xmlns:upnp="urn:schemas-upnp-org:metadata-1-0/upnp/"&gt;&lt;item id="0" parentID="-1" restricted="1"&gt;&lt;dc:title&gt;''
                   @ xmlEscape title @ ''&lt;/dc:title&gt;&lt;res protocolInfo="http-get:*:video/mp4:*"&gt;''
                   @ xmlEscape mediaURL @ ''&lt;/res&gt;&lt;upnp:class&gt;object.item.videoItem&lt;/upnp:class&gt;&lt;/item&gt;&lt;/DIDL-Lite&gt;'';
                 soapBody = soap_envelope ''SetAVTransportURI''
                   (''<InstanceID>0</InstanceID>\<newline><CurrentURI>'' @ xmlEscape mediaURL
                      @ ''</CurrentURI>\<newline><CurrentURIMetaData>'' @ metadata
                      @ ''</CurrentURIMetaData>\<newline>'')
             in sendSOAPAction controlURL (avt @ ''#SetAVTransportURI'') soapBody w1)\<close>

definition Play :: "DLNADevice \<Rightarrow> renderer_net \<Rightarrow> string option \<times> renderer_net" where
  \<open>Play device w =
     (case getAVTransportControlURL device w of (controlURL, w1) \<Rightarrow>
        if controlURL = [] then (Some no_control_url, w1)
        else sendSOAPAction controlURL (avt @ ''#Play'')
               (soap_envelope ''Play'' ''<InstanceID>0</InstanceID>\<newline><Speed>1</Speed>\<newline>'') w1)\<close>

definition Pause :: "DLNADevice \<Rightarrow> renderer_net \<Rightarrow> string option \<times> renderer_net" where
  \<open>Pause device w =
     (case getAVTransportControlURL device w of (controlURL, w1) \<Rightarrow>
        if controlURL = [] then (Some no_control_url, w1)
        else sendSOAPAction controlURL (avt @ ''#Pause'')
               (soap_envelope ''Pause'' ''<InstanceID>0</InstanceID>\<newline>'') w1)\<close>

text \<open>The operation \<open>Stop\<close> of the controller is \<open>StopPlayback\<close> here.\<close>

definition StopPlayback :: "DLNADevice \<Rightarrow> renderer_net \<Rightarrow> string option \<times> renderer_net" where
  \<open>StopPlayback device w =
     (case getAVTransportControlURL device w of (controlURL, w1) \<Rightarrow>
        if controlURL = [] then (Some no_control_url, w1)
        else sendSOAPAction controlURL (avt @ ''#Stop'')
               (soap_envelope ''Stop'' ''<InstanceID>0</InstanceID>\<newline>'') w1)\<close>

definition Seek :: "DLNADevice \<Rightarrow> string \<Rightarrow> renderer_net \<Rightarrow> string option \<times> renderer_net" where
  \<open>Seek device position w =
     (case getAVTransportControlURL device w of (controlURL, w1) \<Rightarrow>
        if controlURL = [] then (Some no_control_url, w1)
        else sendSOAPAction controlURL (avt @ ''#Seek'')
               (soap_envelope ''Seek''
                  (''<InstanceID>0</InstanceID>\<newline><Unit>REL_TIME</Unit>\<newline><Target>''
                     @ position @ ''</Target>\<newline>'')) w1)\<close>

record PlaybackState =
  TransportState :: string
  CurrentPosition :: string
  TrackDuration :: string
  CurrentURI :: string

text \<open>
  The field \<open>Duration\<close> of the playback state is \<open>TrackDuration\<close> here. The responses are
  read with \<open>extractXMLValue\<close>, which never panics; its value is taken with \<open>xml_value\<close>.
\<close>

definition xml_value :: "string \<Rightarrow> string \<Rightarrow> string" where
  "xml_value xml tag = (case extractXMLValue xml tag of Inr v \<Rightarrow> v | Inl p \<Rightarrow> [])"

definition GetTransportInfo ::
    "DLNADevice \<Rightarrow> renderer_net \<Rightarrow> (string + PlaybackState) \<times> renderer_net" where
  \<open>GetTransportInfo device w =
     (case getAVTransportControlURL device w of (controlURL, w1) \<Rightarrow>
        if controlURL = [] then (Inl no_control_url, w1)
        else case sendSOAPActionWithResponse controlURL (avt @ ''#GetTransportInfo'')
                    (soap_envelope ''GetTransportInfo'' ''<InstanceID>0</InstanceID>\<newline>'') w1 of
               (Inl err, w2) \<Rightarrow> (Inl err, w2)
             | (Inr resp, w2) \<Rightarrow>
                 (Inr \<lparr>TransportState = xml_value resp ''CurrentTransportState'',
                       CurrentPosition = [], TrackDuration = [], CurrentURI = []\<rparr>, w2))\<close>

definition GetPositionInfo ::
    "DLNADevice \<Rightarrow> renderer_net \<Rightarrow> (string + PlaybackState) \<times> renderer_net" where
  \<open>GetPositionInfo device w =
     (case getAVTransportControlURL device w of (controlURL, w1) \<Rightarrow>
        if controlURL = [] then (Inl no_control_url, w1)
        else case sendSOAPActionWithResponse controlURL (avt @ ''#GetPositionInfo'')
                    (soap_envelope ''GetPositionInfo'' ''<InstanceID>0</InstanceID>\<newline>'') w1 of
               (Inl err, w2) \<Rightarrow> (Inl err, w2)
             | (Inr resp, w2) \<Rightarrow>
                 (Inr \<lparr>TransportState = [],
                       CurrentPosition = xml_value resp ''RelTime'',
                       TrackDuration = xml_value resp ''TrackDuration'',
                       CurrentURI = xml_value resp ''TrackURI''\<rparr>, w2))\<close>

section \<open>Control API (\<open>api.go\<close>): \<open>handleCast\<close>\<close>

text \<open>
  The decoded body of a cast request; a field that the JSON text leaves out has the
  zero value of its type. The fields \<open>MovieID\<close> and \<open>Transcode\<close> of the source are
  \<open>CastMovieID\<close> and \<open>TranscodeFlag\<close> here.
\<close>

record CastRequest =
  CastMovieID :: string
  DeviceUUID :: string
  SubtitlePath :: string
  SubtitleIndex :: int
  TranscodeFlag :: bool

record API =
  apiLibrary :: Library
  apiSSDP :: SSDPServer
  apiServerAddr :: string

text \<open>\<open>url.QueryEscape\<close>: letters, digits and \<open>-_.~\<close> stay, a space is \<open>+\<close>, the rest is \<open>%XX\<close>.\<close>

definition hex_digit :: "nat \<Rightarrow> char" where
  "hex_digit n = (if n < 10 then char_of (48 + n) else char_of (55 + n))"

definition query_escape_char :: "char \<Rightarrow> string" where
  "query_escape_char c =
     (let n = (of_char c :: nat)
      in if (48 \<le> n \<and> n \<le> 57) \<or> (65 \<le> n \<and> n \<le> 90) \<or> (97 \<le> n \<and> n \<le> 122)
            \<or> c \<in> set ''-_.~'' then [c]
         else if c = CHR '' '' then ''+''
         else [CHR ''%'', hex_digit (n div 16), hex_digit (n mod 16)])"

definition QueryEscape :: "string \<Rightarrow> string" where
  "QueryEscape s = concat (map query_escape_char s)"

text \<open>
  The conversion \<open>string(rune(n))\<close>: \<open>n\<close> is cut to 32 bits and the code point is written
  in UTF-8, the replacement character standing for what is no code point.
\<close>

definition wrap32 :: "int \<Rightarrow> int" where
  "wrap32 x = (x + 2 ^ 31) mod 2 ^ 32 - 2 ^ 31"

definition byte :: "int \<Rightarrow> char" where
  "byte n = char_of (nat n)"

definition rune_string :: "int \<Rightarrow> string" where
  "rune_string n =
     (let r = wrap32 n
      in if r < 0 \<or> r > 0x10FFFF \<or> (0xD800 \<le> r \<and> r \<le> 0xDFFF) then [CHR 0xEF, CHR 0xBF, CHR 0xBD]
         else if r < 0x80 then [byte r]
         else if r < 0x800 then [byte (0xC0 + r div 64), byte (0x80 + r mod 64)]
         else if r < 0x10000
         then [byte (0xE0 + r div 4096), byte (0x80 + (r div 64) mod 64), byte (0x80 + r mod 64)]
         else [byte (0xF0 + r div 262144), byte (0x80 + (r div 4096) mod 64),
               byte (0x80 + (r div 64) mod 64), byte (0x80 + r mod 64)])"

text \<open>What \<open>handleCast\<close> answers: an HTTP error, or a JSON object with these members.\<close>

datatype api_reply =
    ApiError string nat
  | ApiJSON "(string \<times> string) list"

text \<open>The stream URL that \<open>handleCast\<close> builds for a movie and a decoded request.\<close>

definition cast_stream_url :: "API \<Rightarrow> Movie \<Rightarrow> CastRequest \<Rightarrow> string" where
  "cast_stream_url a movie req =
     (let isTranscoding = (TranscodeFlag req \<or> SubtitlePath req \<noteq> [] \<or> SubtitleIndex req > 0);
          streamURL = (if isTranscoding
                       then apiServerAddr a @ ''/stream/'' @ ID movie @ ''/hls/playlist.m3u8''
                       else apiServerAddr a @ ''/stream/'' @ ID movie);
          params = (if isTranscoding then [''transcode=1''] else []);
          params = (if SubtitlePath req \<noteq> []
                    then params @ [''subtitle='' @ QueryEscape (SubtitlePath req)] else params);
          params = (if SubtitleIndex req > 0
                    then params @ [''subtitle_index='' @ rune_string (SubtitleIndex req + 48)]
                    else params)
      in if length params > 0 then streamURL @ ''?'' @ JoinStr params ''&'' else streamURL)"

text \<open>
  \<open>handleCast\<close>: the request method, the decoded body (\<open>None\<close> when the JSON text cannot be
  decoded) and the network towards the renderer.
\<close>

definition handleCast ::
    "API \<Rightarrow> string \<Rightarrow> CastRequest option \<Rightarrow> renderer_net \<Rightarrow> api_reply \<times> renderer_net" where
  "handleCast a method decoded w =
     (if method \<noteq> ''POST'' then (ApiError ''Method not allowed'' 405, w)
      else case decoded of
        None \<Rightarrow> (ApiError ''Invalid request body'' 400, w)
      | Some req \<Rightarrow>
          (case GetMovie (apiLibrary a) (CastMovieID req) of
             Inl err \<Rightarrow> (ApiError ''Movie not found'' 404, w)
           | Inr movie \<Rightarrow>
               (case GetDevice (apiSSDP a) (DeviceUUID req) of
                  Inl err \<Rightarrow> (ApiError ''Device not found'' 404, w)
                | Inr device \<Rightarrow>
                    (let streamURL = cast_stream_url a movie req
                     in case SetAVTransportURI device streamURL (Title movie) w of
                          (Some err, w1) \<Rightarrow> (ApiJSON [(''error'', err)], w1)
                        | (None, w1) \<Rightarrow>
                            (case Play device w1 of
                               (Some err, w2) \<Rightarrow> (ApiJSON [(''error'', err)], w2)
                             | (None, w2) \<Rightarrow>
                                 (ApiJSON [(''status'', ''playing''), (''stream_url'', streamURL)],
                                  w2))))))"


section \<open>Predicates of the specification and example values\<close>

text \<open>A library of three movies and a ContentDirectory service over it.\<close>

definition example_movie :: "string \<Rightarrow> string \<Rightarrow> Movie" where
  "example_movie mid title =
     \<lparr>ID = mid, Title = title, Year = 1999, Duration = 3725, FilePath = ''/media/'' @ mid @ ''.mkv'',
      FileSize = 1000000, VideoCodec = ''h264'', VideoWidth = 1920, VideoHeight = 1080,
      VideoBitrate = 0, AudioCodec = ''aac'', AudioChannels = 2, ThumbnailPath = []\<rparr>"

definition example_library :: Library where
  "example_library =
     \<lparr>movies = [''a'' \<mapsto> example_movie ''a'' ''Alien'',
                 ''b'' \<mapsto> example_movie ''b'' ''Brazil'',
                 ''c'' \<mapsto> example_movie ''c'' ''Casablanca'']\<rparr>"

definition example_service :: ContentDirectoryService where
  "example_service = \<lparr>library = example_library, serverAddr = ''http://10.0.0.2:8080'', updateID = 1\<rparr>"





definition example_peer :: SSDPServer where
  "example_peer = \<lparr>uuid = ''0a1b2c3d'', friendlyName = ''Movies'',
                    ssdpServerAddr = ''http://10.0.0.2:8080'', devices = Map.empty\<rparr>"






text \<open>The error text of a failed SOAP action, and a renderer, its description, the answers of the network and a cast request.\<close>

definition soap_failure :: "nat \<Rightarrow> string \<Rightarrow> string" where
  "soap_failure code respBody =
     ''SOAP action failed with status '' @ Itoa (int code) @ '': '' @ respBody"

definition example_device :: DLNADevice where
  "example_device = new_device ''5f9ec1b3'' ''urn:schemas-upnp-org:device:MediaRenderer:1''
                      ''http://192.168.1.20:8000/desc.xml'' 42"

definition example_description :: string where
  "example_description = ''<root><service><serviceType>urn:schemas-upnp-org:service:AVTransport:1</serviceType><controlURL>/upnp/control/AVTransport1</controlURL></service></root>''"

definition example_net :: "nat \<Rightarrow> renderer_net" where
  "example_net code =
     \<lparr>answers = [Received 200 example_description, Received code ''<e/>'',
                 Received 200 example_description, Received code ''<e/>''],
      sent = []\<rparr>"

definition example_api :: API where
  "example_api =
     \<lparr>apiLibrary = example_library,
      apiSSDP = example_peer\<lparr>devices := [''5f9ec1b3'' \<mapsto> example_device]\<rparr>,
      apiServerAddr = ''http://10.0.0.2:8080''\<rparr>"

definition example_cast :: "string \<Rightarrow> int \<Rightarrow> bool \<Rightarrow> CastRequest" where
  "example_cast path idx tr =
     \<lparr>CastMovieID = ''a'', DeviceUUID = ''5f9ec1b3'', SubtitlePath = path,
      SubtitleIndex = idx, TranscodeFlag = tr\<rparr>"


text \<open>The invariant of the session map, and a manager that holds one session.\<close>

definition session_inv :: "HLSManager \<Rightarrow> bool" where
  "session_inv m =
     ((\<forall>k s. sessions m k = Some s \<longrightarrow> SessionID s = k)
      \<and> (\<forall>k1 k2 s1 s2. sessions m k1 = Some s1 \<and> sessions m k2 = Some s2
             \<and> MovieID s1 = MovieID s2 \<longrightarrow> k1 = k2))"

definition example_create :: "string list \<Rightarrow> string \<Rightarrow> int \<Rightarrow> create_env" where
  "example_create ks sid t =
     \<lparr>now1 = t, range1 = ks, range2 = ks, new_uuid = sid, mkdir_error = None, now2 = t\<rparr>"

definition example_manager :: HLSManager where
  "example_manager =
     snd (CreateSession (NewHLSManager ''/tmp/dlna-movie-cast-hls'') ''a'' (example_create [] ''u1'' 10))"


text \<open>The conditions of direct service in the words of the stream decision table, and a stream handler with the environment of a request.\<close>

definition compatible_codec :: "string \<Rightarrow> bool" where
  "compatible_codec codec = (ToLower codec \<in> {''h264'', ''avc'', ''avc1''})"

definition subtitle_index_given :: "query \<Rightarrow> bool" where
  "subtitle_index_given q =
     (Query_Get q ''subtitle_index'' \<noteq> [] \<and> Atoi (Query_Get q ''subtitle_index'') \<ge> 0)"

definition direct_service :: "Movie \<Rightarrow> query \<Rightarrow> bool" where
  "direct_service movie q =
     (Query_Get q ''transcode'' \<noteq> ''1'' \<and> Query_Get q ''subtitle'' = []
      \<and> \<not> subtitle_index_given q \<and> compatible_codec (VideoCodec movie))"

definition example_spawn :: "string option \<Rightarrow> spawn_env" where
  "example_spawn err =
     \<lparr>stderr_pipe_error = None, stdout_pipe_error = None, start_error = err, new_pid = 4711,
      stdout_bytes = ''ftyp''\<rparr>"

definition example_request :: "string list \<Rightarrow> string \<Rightarrow> int \<Rightarrow> string option \<Rightarrow> request_env" where
  "example_request ks sid t err =
     \<lparr>creation = example_create ks sid t, spawn = example_spawn err,
      playlist_seen = (\<lambda>i. False), playlist_missing = True, scratch = Map.empty,
      open_fails = False, stat_fails = False, encode_query = (\<lambda>q. [])\<rparr>"

definition example_handler :: StreamHandler where
  "example_handler =
     \<lparr>lib = example_library, hlsManager = NewHLSManager ''/tmp/dlna-movie-cast-hls''\<rparr>"

definition spawn_failure_state :: StreamHandler where
  "spawn_failure_state =
     snd (serveHLSPlaylist example_handler ''a''
            (example_request [] ''u1'' 10 (Some ''fork/exec /usr/bin/ffmpeg: no such file or directory'')))"



section \<open>Properties of the string and path functions\<close>










lemma HasPrefix_iff: "HasPrefix s p \<longleftrightarrow> (\<exists>post. s = p @ post)"
proof
  assume "HasPrefix s p"
  then have "s = p @ drop (length p) s"
    unfolding HasPrefix_def by (metis append_take_drop_id)
  then show "\<exists>post. s = p @ post" ..
next
  assume "\<exists>post. s = p @ post"
  then show "HasPrefix s p" by (auto simp: HasPrefix_def)
qed

lemma IndexFrom_found_iff:
  "IndexFrom i s sub \<noteq> - 1 \<longleftrightarrow> (\<exists>pre post. s = pre @ sub @ post)"
proof (induction s arbitrary: i)
  case Nil
  then show ?case by auto
next
  case (Cons c cs)
  show ?case
  proof (cases "HasPrefix (c # cs) sub")
    case True
    then obtain post where "c # cs = [] @ sub @ post" by (auto simp: HasPrefix_iff)
    then have "\<exists>pre post. c # cs = pre @ sub @ post" by blast
    with True show ?thesis by simp
  next
    case False
    have "(\<exists>pre post. c # cs = pre @ sub @ post) \<longleftrightarrow> (\<exists>pre post. cs = pre @ sub @ post)"
    proof
      assume "\<exists>pre post. c # cs = pre @ sub @ post"
      then obtain pre post where e: "c # cs = pre @ sub @ post" by blast
      show "\<exists>pre post. cs = pre @ sub @ post"
      proof (cases pre)
        case Nil
        with e have "HasPrefix (c # cs) sub" by (auto simp: HasPrefix_iff)
        with False show ?thesis by simp
      next
        case (Cons a pre')
        with e have "cs = pre' @ sub @ post" by simp
        then show ?thesis by blast
      qed
    next
      assume "\<exists>pre post. cs = pre @ sub @ post"
      then obtain pre post where "cs = pre @ sub @ post" by blast
      then have "c # cs = (c # pre) @ sub @ post" by simp
      then show "\<exists>pre post. c # cs = pre @ sub @ post" by blast
    qed
    with False Cons.IH [of "Suc i"] show ?thesis by simp
  qed
qed

lemma IndexFrom_nonneg: "IndexFrom i s sub = - 1 \<or> 0 \<le> IndexFrom i s sub"
  by (induction s arbitrary: i) auto

text \<open>\<open>Contains\<close> holds exactly when the second string occurs in the first.\<close>

lemma Contains_iff: "Contains s sub \<longleftrightarrow> (\<exists>pre post. s = pre @ sub @ post)"
  using IndexFrom_found_iff [of 0 s sub] IndexFrom_nonneg [of 0 s sub]
  by (auto simp: Contains_def Index_def)




section \<open>Segment path sanitisation\<close>





text \<open>
  Called directly with a name that starts with a \<open>..\<close> element, \<open>CopySegment\<close> does
  not reject it either, and the resolved path leaves the session directory. No request
  reaches this through \<open>ServeHTTP\<close>, whose file names hold no separator.
\<close>

lemma CopySegment_parent_element:
  "CopySegment_path ''/tmp/dlna-movie-cast-hls'' ''s1'' ''../s2/segment_000.ts''
       = Inr ''/tmp/dlna-movie-cast-hls/s2/segment_000.ts''
   \<and> \<not> strictly_under ''/tmp/dlna-movie-cast-hls/s2/segment_000.ts''
         (Join [''/tmp/dlna-movie-cast-hls'', ''s1''])"
  by code_simp


section \<open>ContentDirectory: extraction and pagination\<close>



lemma and_then_Inl [simp]: "and_then (Inl p) f = Inl p"
  by (simp add: and_then_def)























text \<open>
  Outside the range of claim C4 the slice expression of \<open>buildMoviesList\<close> panics: a
  negative starting index is one such request.
\<close>

lemma Browse_negative_start_panics:
  "handleBrowse example_service [''a'', ''b'', ''c'']
     ''<ObjectID>movies</ObjectID><StartingIndex>-1</StartingIndex>'' = Inl SliceBoundsOutOfRange"
  by code_simp


section \<open>SSDP: search responses and renderer classification\<close>
















section \<open>AVTransport status handling and the cast URL\<close>

lemma sendSOAPActionWithResponse_received:
  "answers w = Received code respBody # rest \<Longrightarrow>
   sendSOAPActionWithResponse controlURL soapAction soapBody w =
     (if code = 200 then Inr respBody else Inl (soap_failure code respBody),
      w\<lparr>answers := rest,
        sent := sent w @ [POST controlURL ([CHR 0x22] @ soapAction @ [CHR 0x22]) soapBody]\<rparr>)"
  by (simp add: sendSOAPActionWithResponse_def http_do_def soap_failure_def)

lemma sendSOAPAction_received:
  "answers w = Received code respBody # rest \<Longrightarrow>
   sendSOAPAction controlURL soapAction soapBody w =
     (if code = 200 then None else Some (soap_failure code respBody),
      w\<lparr>answers := rest,
        sent := sent w @ [POST controlURL ([CHR 0x22] @ soapAction @ [CHR 0x22]) soapBody]\<rparr>)"
  by (simp add: sendSOAPAction_def sendSOAPActionWithResponse_received)

lemma operations_received:
  assumes "getAVTransportControlURL device w = (controlURL, w1)"
    and "controlURL \<noteq> []"
    and "answers w1 = Received code respBody # rest"
  shows "fst (SetAVTransportURI device mediaURL title w)
           = (if code = 200 then None else Some (soap_failure code respBody))"
    and "fst (Play device w) = (if code = 200 then None else Some (soap_failure code respBody))"
    and "fst (Pause device w) = (if code = 200 then None else Some (soap_failure code respBody))"
    and "fst (StopPlayback device w) = (if code = 200 then None else Some (soap_failure code respBody))"
    and "fst (Seek device position w) = (if code = 200 then None else Some (soap_failure code respBody))"
    and "fst (GetTransportInfo device w)
           = (if code = 200
              then Inr \<lparr>TransportState = xml_value respBody ''CurrentTransportState'',
                        CurrentPosition = [], TrackDuration = [], CurrentURI = []\<rparr>
              else Inl (soap_failure code respBody))"
    and "fst (GetPositionInfo device w)
           = (if code = 200
              then Inr \<lparr>TransportState = [], CurrentPosition = xml_value respBody ''RelTime'',
                        TrackDuration = xml_value respBody ''TrackDuration'',
                        CurrentURI = xml_value respBody ''TrackURI''\<rparr>
              else Inl (soap_failure code respBody))"
    and "fst (sendSOAPActionWithResponse controlURL soapAction soapBody w1)
           = (if code = 200 then Inr respBody else Inl (soap_failure code respBody))"
  using assms
  by (simp_all add: SetAVTransportURI_def Play_def Pause_def StopPlayback_def Seek_def
      GetTransportInfo_def GetPositionInfo_def Let_def
      sendSOAPAction_received sendSOAPActionWithResponse_received)

lemma example_control_url:
  "getAVTransportControlURL example_device (example_net code)
     = (''http://192.168.1.20:8000/upnp/control/AVTransport1'',
        \<lparr>answers = [Received code ''<e/>'', Received 200 example_description, Received code ''<e/>''],
         sent = [GET ''http://192.168.1.20:8000/desc.xml'']\<rparr>)"
  by (simp add: example_net_def getAVTransportControlURL_def http_do_def example_device_def new_device_def)
     code_simp

text \<open>
  Claim C8, as the code has it. When the control URL of the renderer was found and the
  renderer answers the SOAP request with status \<open>N\<close> and a body, each of the seven
  operations fails with \<open>SOAP action failed with status N: <body>\<close> exactly when
  \<open>N \<noteq> 200\<close>, and succeeds for status 200: the five commands return no error, the two
  queries return the state read from the body, \<open>sendSOAPActionWithResponse\<close> the body.
\<close>

theorem SOAP_status:
  assumes "getAVTransportControlURL device w = (controlURL, w1)"
    and "controlURL \<noteq> []"
    and "answers w1 = Received code respBody # rest"
  shows "fst (SetAVTransportURI device mediaURL title w)
           = (if code = 200 then None else Some (soap_failure code respBody))
    \<and> fst (Play device w) = (if code = 200 then None else Some (soap_failure code respBody))
    \<and> fst (Pause device w) = (if code = 200 then None else Some (soap_failure code respBody))
    \<and> fst (StopPlayback device w) = (if code = 200 then None else Some (soap_failure code respBody))
    \<and> fst (Seek device position w) = (if code = 200 then None else Some (soap_failure code respBody))
    \<and> fst (GetTransportInfo device w)
           = (if code = 200
              then Inr \<lparr>TransportState = xml_value respBody ''CurrentTransportState'',
                        CurrentPosition = [], TrackDuration = [], CurrentURI = []\<rparr>
              else Inl (soap_failure code respBody))
    \<and> fst (GetPositionInfo device w)
           = (if code = 200
              then Inr \<lparr>TransportState = [], CurrentPosition = xml_value respBody ''RelTime'',
                        TrackDuration = xml_value respBody ''TrackDuration'',
                        CurrentURI = xml_value respBody ''TrackURI''\<rparr>
              else Inl (soap_failure code respBody))
    \<and> fst (sendSOAPActionWithResponse controlURL soapAction soapBody w1)
           = (if code = 200 then Inr respBody else Inl (soap_failure code respBody))"
  using operations_received [OF assms] by blast

lemma example_failure_text:
  "soap_failure 500 ''<e/>'' = ''SOAP action failed with status 500: <e/>''"
  "soap_failure 204 ''<e/>'' = ''SOAP action failed with status 204: <e/>''"
  by code_simp+

theorem SOAP_status_witness:
  "fst (Play example_device (example_net 200)) = None
   \<and> fst (Play example_device (example_net 500))
       = Some ''SOAP action failed with status 500: <e/>''
   \<and> fst (GetTransportInfo example_device (example_net 500))
       = Inl ''SOAP action failed with status 500: <e/>''"
  using SOAP_status [OF example_control_url [of 200], of 200 "''<e/>''"]
    SOAP_status [OF example_control_url [of 500], of 500 "''<e/>''"]
  by (simp add: example_failure_text)

text \<open>
  The claim as the specification words it fails: 204 is a 2xx status, and the operations
  fail on it.
\<close>

theorem SOAP_status_counterexample:
  "200 \<le> (204::nat) \<and> (204::nat) < 300
   \<and> fst (Play example_device (example_net 204))
       = Some ''SOAP action failed with status 204: <e/>''
   \<and> fst (GetPositionInfo example_device (example_net 204))
       = Inl ''SOAP action failed with status 204: <e/>''"
  using operations_received(2,7) [OF example_control_url [of 204], of 204 "''<e/>''"]
  by (simp add: example_failure_text)

lemma cast_url_direct:
  "\<not> TranscodeFlag req \<Longrightarrow> SubtitlePath req = [] \<Longrightarrow> \<not> SubtitleIndex req > 0 \<Longrightarrow>
   cast_stream_url a movie req = apiServerAddr a @ ''/stream/'' @ ID movie"
  by (simp add: cast_stream_url_def)

lemma HasPrefix_append: "HasPrefix (p @ r) p"
  by (simp add: HasPrefix_def)

lemma cast_url_hls:
  "TranscodeFlag req \<or> SubtitlePath req \<noteq> [] \<or> SubtitleIndex req > 0 \<Longrightarrow>
   \<exists>r. cast_stream_url a movie req =
     (apiServerAddr a @ ''/stream/'' @ ID movie @ ''/hls/playlist.m3u8?transcode=1'') @ r"
  by (auto simp: cast_stream_url_def Let_def)

lemma handleCast_found:
  assumes "movies (apiLibrary a) (CastMovieID req) = Some movie"
    and "devices (apiSSDP a) (DeviceUUID req) = Some device"
  shows "handleCast a ''POST'' (Some req) w =
       (case SetAVTransportURI device (cast_stream_url a movie req) (Title movie) w of
          (Some err, w1) \<Rightarrow> (ApiJSON [(''error'', err)], w1)
        | (None, w1) \<Rightarrow>
            (case Play device w1 of
               (Some err, w2) \<Rightarrow> (ApiJSON [(''error'', err)], w2)
             | (None, w2) \<Rightarrow>
                 (ApiJSON [(''status'', ''playing''),
                           (''stream_url'', cast_stream_url a movie req)], w2)))"
  using assms by (simp add: handleCast_def GetMovie_def GetDevice_def Let_def)

text \<open>
  Claim C9, as the code has it. For a cast request whose movie and device are known, the
  stream URL is the HLS playlist URL of the movie (with the parameter \<open>transcode=1\<close>) when
  the transcode flag is set, the subtitle path is not empty or the subtitle index is
  greater than 0, and the direct URL \<open><server>/stream/<id>\<close> otherwise. \<open>handleCast\<close> calls
  \<open>SetAVTransportURI\<close> with that URL and the title and, when it returns no error, \<open>Play\<close>.
\<close>

theorem cast_stream_choice:
  assumes "movies (apiLibrary a) (CastMovieID req) = Some movie"
    and "devices (apiSSDP a) (DeviceUUID req) = Some device"
  shows "(TranscodeFlag req \<or> SubtitlePath req \<noteq> [] \<or> SubtitleIndex req > 0 \<longrightarrow>
            HasPrefix (cast_stream_url a movie req)
              (apiServerAddr a @ ''/stream/'' @ ID movie @ ''/hls/playlist.m3u8?transcode=1''))
    \<and> (\<not> (TranscodeFlag req \<or> SubtitlePath req \<noteq> [] \<or> SubtitleIndex req > 0) \<longrightarrow>
            cast_stream_url a movie req = apiServerAddr a @ ''/stream/'' @ ID movie)
    \<and> handleCast a ''POST'' (Some req) w =
         (case SetAVTransportURI device (cast_stream_url a movie req) (Title movie) w of
            (Some err, w1) \<Rightarrow> (ApiJSON [(''error'', err)], w1)
          | (None, w1) \<Rightarrow>
              (case Play device w1 of
                 (Some err, w2) \<Rightarrow> (ApiJSON [(''error'', err)], w2)
               | (None, w2) \<Rightarrow>
                   (ApiJSON [(''status'', ''playing''),
                             (''stream_url'', cast_stream_url a movie req)], w2)))"
proof (intro conjI impI)
  assume h: "TranscodeFlag req \<or> SubtitlePath req \<noteq> [] \<or> SubtitleIndex req > 0"
  show "HasPrefix (cast_stream_url a movie req)
          (apiServerAddr a @ ''/stream/'' @ ID movie @ ''/hls/playlist.m3u8?transcode=1'')"
    using cast_url_hls [OF h, of a movie] HasPrefix_append by metis
next
  assume "\<not> (TranscodeFlag req \<or> SubtitlePath req \<noteq> [] \<or> SubtitleIndex req > 0)"
  then show "cast_stream_url a movie req = apiServerAddr a @ ''/stream/'' @ ID movie"
    by (simp add: cast_url_direct)
next
  show "handleCast a ''POST'' (Some req) w =
         (case SetAVTransportURI device (cast_stream_url a movie req) (Title movie) w of
            (Some err, w1) \<Rightarrow> (ApiJSON [(''error'', err)], w1)
          | (None, w1) \<Rightarrow>
              (case Play device w1 of
                 (Some err, w2) \<Rightarrow> (ApiJSON [(''error'', err)], w2)
               | (None, w2) \<Rightarrow>
                   (ApiJSON [(''status'', ''playing''),
                             (''stream_url'', cast_stream_url a movie req)], w2)))"
    using assms by (rule handleCast_found)
qed

lemma example_cast_found:
  "movies (apiLibrary example_api) (CastMovieID (example_cast p i t)) = Some (example_movie ''a'' ''Alien'')"
  "devices (apiSSDP example_api) (DeviceUUID (example_cast p i t)) = Some example_device"
  by (simp_all add: example_api_def example_cast_def example_library_def)

lemma example_cast_urls:
  "cast_stream_url example_api (example_movie ''a'' ''Alien'') (example_cast ''/srt/en.srt'' 0 False)
     = ''http://10.0.0.2:8080/stream/a/hls/playlist.m3u8?transcode=1&subtitle=%2Fsrt%2Fen.srt''"
  "cast_stream_url example_api (example_movie ''a'' ''Alien'') (example_cast [] 3 False)
     = ''http://10.0.0.2:8080/stream/a/hls/playlist.m3u8?transcode=1&subtitle_index=3''"
  "cast_stream_url example_api (example_movie ''a'' ''Alien'') (example_cast [] 0 False)
     = ''http://10.0.0.2:8080/stream/a''"
  by code_simp+

text \<open>The requests that reach the renderer when both actions are answered with 200.\<close>

lemma example_cast_trace:
  "map (\<lambda>r. case r of GET u \<Rightarrow> (''GET'', u, []) | POST u action b \<Rightarrow> (''POST'', u, action))
     (sent (snd (handleCast example_api ''POST'' (Some (example_cast [] 3 False)) (example_net 200))))
   = [(''GET'', ''http://192.168.1.20:8000/desc.xml'', []),
      (''POST'', ''http://192.168.1.20:8000/upnp/control/AVTransport1'',
         [CHR 0x22] @ ''urn:schemas-upnp-org:service:AVTransport:1#SetAVTransportURI'' @ [CHR 0x22]),
      (''GET'', ''http://192.168.1.20:8000/desc.xml'', []),
      (''POST'', ''http://192.168.1.20:8000/upnp/control/AVTransport1'',
         [CHR 0x22] @ ''urn:schemas-upnp-org:service:AVTransport:1#Play'' @ [CHR 0x22])]"
  by code_simp

theorem cast_stream_choice_witness:
  "HasPrefix (cast_stream_url example_api (example_movie ''a'' ''Alien'') (example_cast [] 3 False))
     ''http://10.0.0.2:8080/stream/a/hls/playlist.m3u8?transcode=1''
   \<and> cast_stream_url example_api (example_movie ''a'' ''Alien'') (example_cast [] (- 1) False)
       = ''http://10.0.0.2:8080/stream/a''"
  using cast_stream_choice [OF example_cast_found, of "[]" 3 False]
    cast_stream_choice [OF example_cast_found, of "[]" "- 1" False]
  by (simp add: example_cast_def example_api_def example_movie_def)

text \<open>
  The claim as the specification words it fails: a request that selects the embedded
  subtitle index 0, with no transcode flag and no subtitle path, gets the direct URL.
\<close>

theorem cast_index_zero_counterexample:
  "SubtitleIndex (example_cast [] 0 False) = 0
   \<and> cast_stream_url example_api (example_movie ''a'' ''Alien'') (example_cast [] 0 False)
       = ''http://10.0.0.2:8080/stream/a''
   \<and> \<not> Contains (cast_stream_url example_api (example_movie ''a'' ''Alien'') (example_cast [] 0 False))
         ''/hls/playlist.m3u8''"
  by code_simp


section \<open>HLS sessions: one session per movie\<close>

lemma find_session_Some:
  "find_session f mid ks = Some (k, s) \<Longrightarrow> f k = Some s \<and> MovieID s = mid \<and> k \<in> set ks"
  by (induction ks) (auto split: option.splits if_splits)

lemma find_session_None:
  "find_session f mid ks = None \<Longrightarrow> k \<in> set ks \<Longrightarrow> f k = Some s \<Longrightarrow> MovieID s \<noteq> mid"
  by (induction ks) (auto split: option.splits if_splits)

lemma find_session_existing:
  assumes "session_inv m" "sessions m k = Some s" "MovieID s = mid" "map_order (sessions m) ks"
  shows "find_session (sessions m) mid ks = Some (k, s)"
proof (cases "find_session (sessions m) mid ks")
  case None
  have "k \<in> set ks" using assms(2,4) by (auto simp: map_order_def)
  from find_session_None [OF None this assms(2)] assms(3) show ?thesis by simp
next
  case (Some p)
  obtain k' s' where p: "p = (k', s')" by (cases p)
  from find_session_Some [OF Some [unfolded p]]
  have "sessions m k' = Some s'" "MovieID s' = mid" by auto
  with assms(1-3) have "k' = k" unfolding session_inv_def by blast
  with \<open>sessions m k' = Some s'\<close> assms(2) Some p show ?thesis by simp
qed

lemma find_session_absent:
  assumes "find_session (sessions m) mid ks = None" "map_order (sessions m) ks"
  shows "sessions m k = Some s \<Longrightarrow> MovieID s \<noteq> mid"
proof -
  assume a: "sessions m k = Some s"
  then have "k \<in> set ks" using assms(2) by (auto simp: map_order_def)
  from find_session_None [OF assms(1) this a] show ?thesis .
qed

lemma inv_touch:
  assumes "session_inv m" "sessions m k = Some s"
  shows "session_inv (m\<lparr>sessions := (sessions m)(k \<mapsto> s\<lparr>LastAccessed := t\<rparr>)\<rparr>)"
  using assms unfolding session_inv_def
  by (auto split: if_splits)

lemma inv_process:
  assumes "session_inv m" "sessions m k = Some s"
  shows "session_inv (m\<lparr>sessions := (sessions m)(k \<mapsto> s\<lparr>Process := p\<rparr>)\<rparr>)"
  using assms unfolding session_inv_def
  by (auto split: if_splits)

lemma inv_GetSession: "session_inv m \<Longrightarrow> session_inv (snd (GetSession m mid t ks))"
  by (auto simp: GetSession_def inv_touch Let_def split: option.splits dest!: find_session_Some)

lemma sessions_GetSession_None:
  "fst (GetSession m mid t ks) = None \<Longrightarrow> snd (GetSession m mid t ks) = m"
  by (auto simp: GetSession_def Let_def split: option.splits)

lemma GetSession_None_iff:
  "fst (GetSession m mid t ks) = None \<longleftrightarrow> find_session (sessions m) mid ks = None"
  by (auto simp: GetSession_def Let_def split: option.splits)

lemma inv_insert:
  assumes "session_inv m" "\<And>k s. sessions m k = Some s \<Longrightarrow> MovieID s \<noteq> mid"
  shows "session_inv (m\<lparr>sessions := (sessions m)(sid \<mapsto>
            \<lparr>SessionID = sid, MovieID = mid, Dir = d, LastAccessed = t, Process = None\<rparr>),
          dirs := ds\<rparr>)"
  using assms unfolding session_inv_def
  by (auto split: if_splits)

lemma inv_CreateSession_locked:
  assumes "session_inv m" "map_order (sessions m) (range2 env)"
  shows "session_inv (snd (CreateSession_locked m mid env))"
proof (cases "find_session (sessions m) mid (range2 env)")
  case None
  have none: "\<And>k s. sessions m k = Some s \<Longrightarrow> MovieID s \<noteq> mid"
    using find_session_absent [OF None assms(2)] .
  show ?thesis
    unfolding CreateSession_locked_def using None assms(1) none
    by (auto simp: Let_def inv_insert split: option.splits)
next
  case (Some p)
  then show ?thesis using assms(1)
    by (auto simp: CreateSession_locked_def split: prod.splits)
qed

lemma inv_CreateSession:
  assumes "session_inv m" "map_order (sessions m) (range1 env)" "map_order (sessions m) (range2 env)"
  shows "session_inv (snd (CreateSession m mid env))"
proof (cases "fst (GetSession m mid (now1 env) (range1 env))")
  case (Some s)
  then have "snd (CreateSession m mid env) = snd (GetSession m mid (now1 env) (range1 env))"
    by (auto simp: CreateSession_def split: prod.splits option.splits)
  then show ?thesis using assms(1) by (simp add: inv_GetSession)
next
  case None
  then have m1: "GetSession m mid (now1 env) (range1 env) = (None, m)"
    using sessions_GetSession_None [OF None] by (simp add: prod_eq_iff)
  show ?thesis
    unfolding CreateSession_def m1 using assms(1,3) by (simp add: inv_CreateSession_locked)
qed

lemma inv_GetSessionByID: "session_inv m \<Longrightarrow> session_inv (snd (GetSessionByID m sid t))"
  by (auto simp: GetSessionByID_def inv_touch Let_def split: option.splits)

lemma inv_set_process: "session_inv m \<Longrightarrow> session_inv (set_process m sid pid)"
  by (auto simp: set_process_def inv_process split: option.splits)

lemma inv_shrink:
  assumes "session_inv m" "\<And>k. sessions m' k = None \<or> sessions m' k = sessions m k"
  shows "session_inv m'"
  unfolding session_inv_def
proof (intro conjI allI impI)
  fix k s assume "sessions m' k = Some s"
  then have "sessions m k = Some s" using assms(2) [of k] by auto
  then show "SessionID s = k" using assms(1) by (simp add: session_inv_def)
next
  fix k1 k2 s1 s2
  assume a: "sessions m' k1 = Some s1 \<and> sessions m' k2 = Some s2 \<and> MovieID s1 = MovieID s2"
  then have "sessions m k1 = Some s1" "sessions m k2 = Some s2"
    using assms(2) [of k1] assms(2) [of k2] by auto
  with a assms(1) show "k1 = k2" unfolding session_inv_def by blast
qed

lemma cleanup_shrinks:
  "sessions (foldl (\<lambda>m k. case sessions m k of
                          Some s \<Rightarrow>
                            if LastAccessed s < c
                            then (terminateSession m s)\<lparr>sessions := (sessions m)(k := None)\<rparr>
                            else m
                        | None \<Rightarrow> m) m ks) k = None
   \<or> sessions (foldl (\<lambda>m k. case sessions m k of
                          Some s \<Rightarrow>
                            if LastAccessed s < c
                            then (terminateSession m s)\<lparr>sessions := (sessions m)(k := None)\<rparr>
                            else m
                        | None \<Rightarrow> m) m ks) k = sessions m k"
proof (induction ks arbitrary: m)
  case Nil
  then show ?case by simp
next
  case (Cons a ks)
  show ?case
    using Cons.IH [of "case sessions m a of
                          Some s \<Rightarrow>
                            if LastAccessed s < c
                            then (terminateSession m s)\<lparr>sessions := (sessions m)(a := None)\<rparr>
                            else m
                        | None \<Rightarrow> m"]
    by (auto simp: terminateSession_def split: option.splits if_splits)
qed

lemma inv_cleanup: "session_inv m \<Longrightarrow> session_inv (cleanupOldSessions m t ks)"
  unfolding cleanupOldSessions_def Let_def
  by (erule inv_shrink) (rule cleanup_shrinks)

lemma stop_sessions:
  "sessions (foldl (\<lambda>m k. case sessions m k of Some s \<Rightarrow> terminateSession m s | None \<Rightarrow> m) m ks)
     = sessions m"
  by (induction ks arbitrary: m) (auto simp: terminateSession_def split: option.splits)

lemma inv_Stop: "session_inv m \<Longrightarrow> session_inv (Stop m ks)"
  by (erule inv_shrink) (simp add: Stop_def stop_sessions)

lemma reachable_inv: "reachable m \<Longrightarrow> session_inv m"
proof (induction rule: reachable.induct)
  case (start base)
  then show ?case by (simp add: session_inv_def NewHLSManager_def)
qed (simp_all add: inv_GetSession inv_CreateSession inv_CreateSession_locked inv_GetSessionByID
      inv_set_process inv_cleanup inv_Stop)

lemma GetSession_existing:
  assumes "session_inv m" "sessions m k = Some s" "MovieID s = mid" "map_order (sessions m) ks"
  shows "GetSession m mid t ks =
           (Some (s\<lparr>LastAccessed := t\<rparr>), m\<lparr>sessions := (sessions m)(k \<mapsto> s\<lparr>LastAccessed := t\<rparr>)\<rparr>)"
  by (simp add: GetSession_def find_session_existing [OF assms] Let_def)

lemma CreateSession_existing:
  assumes "session_inv m" "sessions m k = Some s" "MovieID s = mid"
    "map_order (sessions m) (range1 env)"
  shows "CreateSession m mid env =
           (Inr (s\<lparr>LastAccessed := now1 env\<rparr>),
            m\<lparr>sessions := (sessions m)(k \<mapsto> s\<lparr>LastAccessed := now1 env\<rparr>)\<rparr>)"
  by (simp add: CreateSession_def GetSession_existing [OF assms])

text \<open>
  Claim C2. In every state the manager can reach, the session map holds at most one
  session of a movie. When it holds the session \<open>s\<close> of the movie under the key \<open>k\<close>, the key
  is the session id, and \<open>GetSession\<close> and \<open>CreateSession\<close> return that session with its
  last-accessed time set to the current time, store it under the same key, and leave the
  keys of the map and the scratch directories as they were; the second critical section
  of \<open>CreateSession\<close>, run on its own, returns the session and changes nothing.
\<close>

theorem one_session_per_movie:
  assumes "reachable m"
  shows "(\<forall>k1 k2. k1 \<in> sessions_of m movieID \<and> k2 \<in> sessions_of m movieID \<longrightarrow> k1 = k2)
    \<and> (sessions m k = Some s \<and> MovieID s = movieID \<and> map_order (sessions m) ks \<longrightarrow>
          SessionID s = k
          \<and> fst (GetSession m movieID now ks) = Some (s\<lparr>LastAccessed := now\<rparr>)
          \<and> sessions (snd (GetSession m movieID now ks)) k = Some (s\<lparr>LastAccessed := now\<rparr>)
          \<and> dom (sessions (snd (GetSession m movieID now ks))) = dom (sessions m)
          \<and> dirs (snd (GetSession m movieID now ks)) = dirs m)
    \<and> (sessions m k = Some s \<and> MovieID s = movieID \<and> map_order (sessions m) (range1 env) \<longrightarrow>
          fst (CreateSession m movieID env) = Inr (s\<lparr>LastAccessed := now1 env\<rparr>)
          \<and> sessions (snd (CreateSession m movieID env)) k = Some (s\<lparr>LastAccessed := now1 env\<rparr>)
          \<and> dom (sessions (snd (CreateSession m movieID env))) = dom (sessions m)
          \<and> dirs (snd (CreateSession m movieID env)) = dirs m)
    \<and> (sessions m k = Some s \<and> MovieID s = movieID \<and> map_order (sessions m) (range2 env) \<longrightarrow>
          CreateSession_locked m movieID env = (Inr s, m))"
proof -
  have inv: "session_inv m" using assms by (rule reachable_inv)
  have 1: "\<forall>k1 k2. k1 \<in> sessions_of m movieID \<and> k2 \<in> sessions_of m movieID \<longrightarrow> k1 = k2"
    using inv unfolding session_inv_def sessions_of_def by blast
  have 2: "SessionID s = k
          \<and> fst (GetSession m movieID now ks) = Some (s\<lparr>LastAccessed := now\<rparr>)
          \<and> sessions (snd (GetSession m movieID now ks)) k = Some (s\<lparr>LastAccessed := now\<rparr>)
          \<and> dom (sessions (snd (GetSession m movieID now ks))) = dom (sessions m)
          \<and> dirs (snd (GetSession m movieID now ks)) = dirs m"
    if a: "sessions m k = Some s \<and> MovieID s = movieID \<and> map_order (sessions m) ks"
  proof -
    from a have s: "sessions m k = Some s" "MovieID s = movieID" "map_order (sessions m) ks"
      by simp_all
    have "SessionID s = k" using inv s(1) by (simp add: session_inv_def)
    moreover have "k \<in> dom (sessions m)" using s(1) by auto
    ultimately show ?thesis
      unfolding GetSession_existing [OF inv s] by auto
  qed
  have 3: "fst (CreateSession m movieID env) = Inr (s\<lparr>LastAccessed := now1 env\<rparr>)
          \<and> sessions (snd (CreateSession m movieID env)) k = Some (s\<lparr>LastAccessed := now1 env\<rparr>)
          \<and> dom (sessions (snd (CreateSession m movieID env))) = dom (sessions m)
          \<and> dirs (snd (CreateSession m movieID env)) = dirs m"
    if a: "sessions m k = Some s \<and> MovieID s = movieID \<and> map_order (sessions m) (range1 env)"
  proof -
    from a have s: "sessions m k = Some s" "MovieID s = movieID" "map_order (sessions m) (range1 env)"
      by simp_all
    have "k \<in> dom (sessions m)" using s(1) by auto
    then show ?thesis
      unfolding CreateSession_existing [OF inv s] by auto
  qed
  have 4: "CreateSession_locked m movieID env = (Inr s, m)"
    if a: "sessions m k = Some s \<and> MovieID s = movieID \<and> map_order (sessions m) (range2 env)"
  proof -
    from a have s: "sessions m k = Some s" "MovieID s = movieID" "map_order (sessions m) (range2 env)"
      by simp_all
    show ?thesis
      by (simp add: CreateSession_locked_def find_session_existing [OF inv s])
  qed
  from 1 2 3 4 show ?thesis by blast
qed

lemma example_session_dir: "Join [''/tmp/dlna-movie-cast-hls'', ''u1''] = ''/tmp/dlna-movie-cast-hls/u1''"
  by code_simp

lemma example_manager_eq:
  "example_manager =
     \<lparr>sessions = [''u1'' \<mapsto> \<lparr>SessionID = ''u1'', MovieID = ''a'', Dir = ''/tmp/dlna-movie-cast-hls/u1'',
                                  LastAccessed = 10, Process = None\<rparr>],
      baseDir = ''/tmp/dlna-movie-cast-hls'', dirs = {''/tmp/dlna-movie-cast-hls/u1''}, killed = {}\<rparr>"
  by (simp add: example_manager_def CreateSession_def CreateSession_locked_def GetSession_def
      NewHLSManager_def example_create_def Let_def example_session_dir)

lemma example_manager_reachable: "reachable example_manager"
  unfolding example_manager_def
  by (rule reachable.create [OF reachable.start])
     (simp_all add: map_order_def NewHLSManager_def example_create_def)

theorem one_session_per_movie_witness:
  "reachable example_manager
   \<and> sessions example_manager ''u1''
       = Some \<lparr>SessionID = ''u1'', MovieID = ''a'', Dir = ''/tmp/dlna-movie-cast-hls/u1'',
                LastAccessed = 10, Process = None\<rparr>
   \<and> fst (CreateSession example_manager ''a'' (example_create [''u1''] ''u2'' 20))
       = Inr \<lparr>SessionID = ''u1'', MovieID = ''a'', Dir = ''/tmp/dlna-movie-cast-hls/u1'',
               LastAccessed = 20, Process = None\<rparr>
   \<and> dom (sessions (snd (CreateSession example_manager ''a'' (example_create [''u1''] ''u2'' 20))))
       = {''u1''}
   \<and> dirs (snd (CreateSession example_manager ''a'' (example_create [''u1''] ''u2'' 20)))
       = {''/tmp/dlna-movie-cast-hls/u1''}"
proof -
  have s: "sessions example_manager ''u1''
       = Some \<lparr>SessionID = ''u1'', MovieID = ''a'', Dir = ''/tmp/dlna-movie-cast-hls/u1'',
                LastAccessed = 10, Process = None\<rparr>"
    by (simp add: example_manager_eq)
  have o: "map_order (sessions example_manager) (range1 (example_create [''u1''] ''u2'' 20))"
    by (simp add: example_manager_eq map_order_def example_create_def)
  have d: "dom (sessions example_manager) = {''u1''}" "dirs example_manager = {''/tmp/dlna-movie-cast-hls/u1''}"
    by (simp_all add: example_manager_eq)
  show ?thesis
    using one_session_per_movie [OF example_manager_reachable, of "''a''" "''u1''"
        "\<lparr>SessionID = ''u1'', MovieID = ''a'', Dir = ''/tmp/dlna-movie-cast-hls/u1'',
          LastAccessed = 10, Process = None\<rparr>" "[''u1'']" 20 "example_create [''u1''] ''u2'' 20"]
      s o d example_manager_reachable
    by (simp add: example_create_def)
qed


section \<open>Stream dispatcher: service choice and transcoder start failure\<close>

lemma lowered_codecs: "ToLower ''h264'' = ''h264''" "ToLower ''avc'' = ''avc''" "ToLower ''avc1'' = ''avc1''"
  by code_simp+

lemma NeedsTranscode_eq:
  "NeedsTranscode movie burn = (burn \<or> \<not> compatible_codec (VideoCodec movie))"
  by (auto simp: NeedsTranscode_def compatible_codec_def EqualFold_def lowered_codecs)

lemma needsTranscode_iff: "needsTranscode movie q = (\<not> direct_service movie q)"
  unfolding needsTranscode_def direct_service_def subtitle_index_given_def Let_def NeedsTranscode_eq
  by auto

lemma ServeHTTP_plain:
  assumes "route_path urlPath = PlainStream movieID" "movies (lib h) movieID = Some movie"
    "Query_Get q ''format'' \<noteq> ''hls''"
  shows "ServeHTTP h urlPath q env =
     (if needsTranscode movie q
      then (serveTranscodedStream movie (Query_Get q ''subtitle'')
              (if Query_Get q ''subtitle_index'' \<noteq> [] then Atoi (Query_Get q ''subtitle_index'') else - 1)
              env, h)
      else (serveDirectStream movie env, h))"
  using assms by (simp add: ServeHTTP_def GetMovie_def Let_def)

lemma direct_not_pipe:
  "serveDirectStream movie env \<noteq> serveTranscodedStream movie' sp si env'"
  by (auto simp: serveDirectStream_def serveTranscodedStream_def http_Error_def
      split: sum.splits)

text \<open>
  Claim C5. For a request that \<open>ServeHTTP\<close> routes as a plain stream (no \<open>hls\<close> element
  after the movie id), whose movie is in the library and whose \<open>format\<close> parameter is not
  \<open>hls\<close>: the request is handed to \<open>serveDirectStream\<close> exactly when the \<open>transcode\<close>
  parameter is not \<open>1\<close>, the \<open>subtitle\<close> parameter is empty, no subtitle index is given
  (the \<open>subtitle_index\<close> parameter is empty or reads as a negative number) and the video
  codec is \<open>h264\<close>, \<open>avc\<close> or \<open>avc1\<close> in any letter case; in every other case it is handed
  to \<open>serveTranscodedStream\<close>. Direct service passes the file to \<open>http.ServeContent\<close>
  with \<open>Accept-Ranges: bytes\<close>; the transcoded stream, once the transcoder has started,
  is a 200 response with \<open>Content-Type: video/mp4\<close> and \<open>Transfer-Encoding: chunked\<close> that
  carries the transcoder's output, and no \<open>Accept-Ranges\<close> header.
\<close>

theorem stream_service_choice:
  assumes "route_path urlPath = PlainStream movieID"
    and "movies (lib h) movieID = Some movie"
    and "Query_Get q ''format'' \<noteq> ''hls''"
  shows "(fst (ServeHTTP h urlPath q env) = serveDirectStream movie env \<longleftrightarrow> direct_service movie q)
    \<and> (\<not> direct_service movie q \<longrightarrow>
          fst (ServeHTTP h urlPath q env)
            = serveTranscodedStream movie (Query_Get q ''subtitle'')
                (if Query_Get q ''subtitle_index'' \<noteq> [] then Atoi (Query_Get q ''subtitle_index'')
                 else - 1) env)
    \<and> (\<not> open_fails env \<and> \<not> stat_fails env \<longrightarrow>
          serveDirectStream movie env
            = ServeContent [(''Content-Type'', getContentType (FilePath movie)),
                            (''Accept-Ranges'', ''bytes'')] (FilePath movie))
    \<and> (Transcode (spawn env) = Inr bytes \<longrightarrow>
          (\<exists>r. serveTranscodedStream movie sp si env = Reply r \<and> status r = 200 \<and> body r = bytes
               \<and> map_of (headers r) ''Content-Type'' = Some ''video/mp4''
               \<and> map_of (headers r) ''Transfer-Encoding'' = Some ''chunked''
               \<and> map_of (headers r) ''Accept-Ranges'' = None))"
proof (intro conjI impI)
  show "fst (ServeHTTP h urlPath q env) = serveDirectStream movie env \<longleftrightarrow> direct_service movie q"
  proof (cases "direct_service movie q")
    case True
    then show ?thesis unfolding ServeHTTP_plain [OF assms] needsTranscode_iff by simp
  next
    case False
    then have "fst (ServeHTTP h urlPath q env)
        = serveTranscodedStream movie (Query_Get q ''subtitle'')
            (if Query_Get q ''subtitle_index'' \<noteq> [] then Atoi (Query_Get q ''subtitle_index'')
             else - 1) env"
      unfolding ServeHTTP_plain [OF assms] needsTranscode_iff by simp
    then show ?thesis using False direct_not_pipe [of movie env movie] by metis
  qed
  show "fst (ServeHTTP h urlPath q env)
            = serveTranscodedStream movie (Query_Get q ''subtitle'')
                (if Query_Get q ''subtitle_index'' \<noteq> [] then Atoi (Query_Get q ''subtitle_index'')
                 else - 1) env"
    if "\<not> direct_service movie q"
    unfolding ServeHTTP_plain [OF assms] needsTranscode_iff using that by simp
  show "serveDirectStream movie env
            = ServeContent [(''Content-Type'', getContentType (FilePath movie)),
                            (''Accept-Ranges'', ''bytes'')] (FilePath movie)"
    if "\<not> open_fails env \<and> \<not> stat_fails env"
    using that by (simp add: serveDirectStream_def)
  show "\<exists>r. serveTranscodedStream movie sp si env = Reply r \<and> status r = 200 \<and> body r = bytes
               \<and> map_of (headers r) ''Content-Type'' = Some ''video/mp4''
               \<and> map_of (headers r) ''Transfer-Encoding'' = Some ''chunked''
               \<and> map_of (headers r) ''Accept-Ranges'' = None"
    if "Transcode (spawn env) = Inr bytes"
    using that by (simp add: serveTranscodedStream_def)
qed

lemma example_stream_facts:
  "route_path ''/stream/a'' = PlainStream ''a''"
  "Query_Get [(''subtitle'', ''/srt/en.srt'')] ''format'' \<noteq> ''hls''"
  "Query_Get [] ''format'' \<noteq> ''hls''"
  "\<not> direct_service (example_movie ''a'' ''Alien'') [(''subtitle'', ''/srt/en.srt'')]"
  "direct_service (example_movie ''a'' ''Alien'') []"
  "Transcode (spawn (example_request [] ''u1'' 10 None)) = Inr ''ftyp''"
  "Query_Get [(''subtitle'', ''/srt/en.srt'')] ''subtitle'' = ''/srt/en.srt''"
  "Query_Get [(''subtitle'', ''/srt/en.srt'')] ''subtitle_index'' = []"
  "getContentType (FilePath (example_movie ''a'' ''Alien'')) = ''video/x-matroska''"
  "FilePath (example_movie ''a'' ''Alien'') = ''/media/a.mkv''"
  by code_simp+

lemma example_movie_found: "movies (lib example_handler) ''a'' = Some (example_movie ''a'' ''Alien'')"
  by (simp add: example_handler_def example_library_def)

theorem stream_service_choice_witness:
  "fst (ServeHTTP example_handler ''/stream/a'' [] (example_request [] ''u1'' 10 None))
     = ServeContent [(''Content-Type'', ''video/x-matroska''), (''Accept-Ranges'', ''bytes'')]
         ''/media/a.mkv''
   \<and> (\<exists>r. fst (ServeHTTP example_handler ''/stream/a'' [(''subtitle'', ''/srt/en.srt'')]
                 (example_request [] ''u1'' 10 None)) = Reply r
          \<and> status r = 200
          \<and> map_of (headers r) ''Content-Type'' = Some ''video/mp4''
          \<and> map_of (headers r) ''Transfer-Encoding'' = Some ''chunked''
          \<and> map_of (headers r) ''Accept-Ranges'' = None)"
proof -
  have o: "\<not> open_fails (example_request [] ''u1'' 10 None) \<and> \<not> stat_fails (example_request [] ''u1'' 10 None)"
    by (simp add: example_request_def)
  show ?thesis
    using stream_service_choice [OF example_stream_facts(1) example_movie_found example_stream_facts(3),
        of "example_request [] ''u1'' 10 None" "''ftyp''" "''/srt/en.srt''" "- 1"]
      stream_service_choice [OF example_stream_facts(1) example_movie_found example_stream_facts(2),
        of "example_request [] ''u1'' 10 None" "''ftyp''" "''/srt/en.srt''" "- 1"]
      example_stream_facts(4-10) o
    by auto
qed

text \<open>
  In general: when no session of the movie exists and the transcoder fails to start, the
  handler answers 500 with the error and returns with the new session in the map.
\<close>

lemma spawn_failure_leaves_session:
  assumes "find_session (sessions (hlsManager h)) movieID (range1 (creation env)) = None"
    and "find_session (sessions (hlsManager h)) movieID (range2 (creation env)) = None"
    and "movies (lib h) movieID = Some movie"
    and "mkdir_error (creation env) = None"
    and "StartHLSTranscode (spawn env) = Inl err"
  shows "fst (serveHLSPlaylist h movieID env)
           = Reply (http_Error (''Failed to start HLS transcoding: '' @ err) 500)"
    and "sessions (hlsManager (snd (serveHLSPlaylist h movieID env))) (new_uuid (creation env))
           = Some \<lparr>SessionID = new_uuid (creation env), MovieID = movieID,
                    Dir = Join [baseDir (hlsManager h), new_uuid (creation env)],
                    LastAccessed = now2 (creation env), Process = None\<rparr>"
  using assms
  by (simp_all add: serveHLSPlaylist_def GetSession_def CreateSession_def CreateSession_locked_def
      GetMovie_def Let_def)

text \<open>
  Claim C3 at a failing input. The first playlist request for movie \<open>a\<close> finds no session,
  creates the session \<open>u1\<close>, and the transcoder cannot be started: the answer is status 500
  with the error of the subprocess, and the session \<open>u1\<close> stays in the map without a
  process. The next playlist request for the movie (in an environment where the
  transcoder would start) finds that session, creates no new one, answers 503 and leaves
  the session in the map, touched and still without a process.
\<close>

theorem spawn_failure_session_remains:
  "fst (serveHLSPlaylist example_handler ''a''
          (example_request [] ''u1'' 10 (Some ''fork/exec /usr/bin/ffmpeg: no such file or directory'')))
     = Reply (http_Error ''Failed to start HLS transcoding: failed to start ffmpeg: fork/exec /usr/bin/ffmpeg: no such file or directory'' 500)
   \<and> sessions (hlsManager spawn_failure_state) ''u1''
       = Some \<lparr>SessionID = ''u1'', MovieID = ''a'', Dir = ''/tmp/dlna-movie-cast-hls/u1'',
                LastAccessed = 10, Process = None\<rparr>
   \<and> fst (serveHLSPlaylist spawn_failure_state ''a'' (example_request [''u1''] ''u2'' 20 None))
       = Reply (http_Error ''Playlist not ready yet'' 503)
   \<and> sessions (hlsManager (snd (serveHLSPlaylist spawn_failure_state ''a''
                                   (example_request [''u1''] ''u2'' 20 None)))) ''u2'' = None
   \<and> sessions (hlsManager (snd (serveHLSPlaylist spawn_failure_state ''a''
                                   (example_request [''u1''] ''u2'' 20 None)))) ''u1''
       = Some \<lparr>SessionID = ''u1'', MovieID = ''a'', Dir = ''/tmp/dlna-movie-cast-hls/u1'',
                LastAccessed = 20, Process = None\<rparr>"
  by code_simp

end
